theory Spec2Isabelle
  imports Complex_Main "HOL-Library.Sublist"
begin

section \<open>Values of the host language\<close>

text \<open>
  A JavaScript \<open>number\<close> is modelled by an exact rational: every finite double is a
  rational, and integers below \<open>2^53\<close> (all timestamps and minor-unit amounts of the
  bank) are computed with exactly. A quotient such as \<open>amount / 100\<close> is the exact
  quotient here; the double the program holds is the one nearest to it. \<open>NaN\<close> and the
  infinities are not values of the model: no JSON document denotes them.
\<close>

type_synonym number = rat

text \<open>
  Values that cross the program's boundary: the arguments object of a call and the JSON
  document that a call returns. An object is the list of its members in insertion order.
\<close>

datatype jsval =
    JUndefined
  | JNull
  | JBool bool
  | JNum number
  | JStr string
  | JArr "jsval list"
  | JObj "(string \<times> jsval) list"

text \<open>
  What can be thrown inside a \<open>try\<close> block: an instance of \<open>Error\<close> (or of a subclass
  such as \<open>TypeError\<close>, \<open>RangeError\<close>, \<open>SyntaxError\<close>) with its message, or any other
  value, kept as the string \<open>String(value)\<close>.
\<close>

datatype thrown = ErrorObject string | NonError string

subsection \<open>Decimal rendering of integers\<close>

definition digit_char :: "nat \<Rightarrow> char" where
  "digit_char d = ''0123456789'' ! d"

fun show_nat :: "nat \<Rightarrow> string" where
  "show_nat n = (if n < 10 then [digit_char n] else show_nat (n div 10) @ [digit_char (n mod 10)])"

declare show_nat.simps [simp del]

text \<open>\<open>String(n).padStart(minLength, "0")\<close>, the padding \<open>toISOString\<close> applies to each field.\<close>

definition ToZeroPaddedDecimalString :: "nat \<Rightarrow> nat \<Rightarrow> string" where
  "ToZeroPaddedDecimalString n minLength =
     replicate (minLength - length (show_nat n)) (CHR ''0'') @ show_nat n"

section \<open>Dates: \<open>new Date(ms).toISOString()\<close>\<close>

text \<open>
  The time value of a \<open>Date\<close> is an integral number of milliseconds since the epoch, or
  \<open>NaN\<close> (here \<open>None\<close>). The functions below are those of the ECMAScript language
  specification (Date objects: Day, DaysInYear, DayFromYear, YearFromTime, InLeapYear,
  MonthFromTime, DateFromTime, HourFromTime, MinFromTime, SecFromTime, msFromTime,
  TimeClip, Date.prototype.toISOString), which the program calls through the runtime.
\<close>

definition msPerDay :: int where
  "msPerDay = 86400000"

definition Day :: "int \<Rightarrow> int" where
  "Day t = t div msPerDay"

definition DaysInYear :: "int \<Rightarrow> int" where
  "DaysInYear y =
     (if y mod 4 \<noteq> 0 then 365
      else if y mod 100 \<noteq> 0 then 366
      else if y mod 400 \<noteq> 0 then 365
      else 366)"

definition DayFromYear :: "int \<Rightarrow> int" where
  "DayFromYear y =
     365 * (y - 1970) + (y - 1969) div 4 - (y - 1901) div 100 + (y - 1601) div 400"

definition TimeFromYear :: "int \<Rightarrow> int" where
  "TimeFromYear y = msPerDay * DayFromYear y"

text \<open>
  The language specification defines \<open>YearFromTime(t)\<close> as the largest \<open>y\<close> with
  \<open>TimeFromYear(y) \<le> t\<close>. It is computed from the mean length of a Gregorian year
  (146097 days in 400 years), which is off by at most one year, and then adjusted;
  \<open>YearFromTime_largest\<close> below proves that this is the year the specification means.
\<close>

definition YearFromTime :: "int \<Rightarrow> int" where
  "YearFromTime t =
     (let d = Day t; y = 1970 + (400 * d) div 146097
      in if d < DayFromYear y then y - 1
         else if DayFromYear (y + 1) \<le> d then y + 1
         else y)"

definition InLeapYear :: "int \<Rightarrow> int" where
  "InLeapYear t = (if DaysInYear (YearFromTime t) = 366 then 1 else 0)"

definition DayWithinYear :: "int \<Rightarrow> int" where
  "DayWithinYear t = Day t - DayFromYear (YearFromTime t)"

definition MonthFromTime :: "int \<Rightarrow> int" where
  "MonthFromTime t =
     (let d = DayWithinYear t; l = InLeapYear t
      in if d < 31 then 0
         else if d < 59 + l then 1
         else if d < 90 + l then 2
         else if d < 120 + l then 3
         else if d < 151 + l then 4
         else if d < 181 + l then 5
         else if d < 212 + l then 6
         else if d < 243 + l then 7
         else if d < 273 + l then 8
         else if d < 304 + l then 9
         else if d < 334 + l then 10
         else 11)"

definition DateFromTime :: "int \<Rightarrow> int" where
  "DateFromTime t =
     (let d = DayWithinYear t; l = InLeapYear t; m = MonthFromTime t
      in if m = 0 then d + 1
         else if m = 1 then d - 30
         else if m = 2 then d - 58 - l
         else if m = 3 then d - 89 - l
         else if m = 4 then d - 119 - l
         else if m = 5 then d - 150 - l
         else if m = 6 then d - 180 - l
         else if m = 7 then d - 211 - l
         else if m = 8 then d - 242 - l
         else if m = 9 then d - 272 - l
         else if m = 10 then d - 303 - l
         else d - 333 - l)"

definition HourFromTime :: "int \<Rightarrow> int" where
  "HourFromTime t = (t div 3600000) mod 24"

definition MinFromTime :: "int \<Rightarrow> int" where
  "MinFromTime t = (t div 60000) mod 60"

definition SecFromTime :: "int \<Rightarrow> int" where
  "SecFromTime t = (t div 1000) mod 60"

definition msFromTime :: "int \<Rightarrow> int" where
  "msFromTime t = t mod 1000"

text \<open>
  \<open>TimeClip\<close>: a time value beyond \<open>8.64 \<times> 10^15\<close> ms on either side of the epoch is
  \<open>NaN\<close>; otherwise the fraction is dropped (truncation towards zero).
\<close>

definition ToIntegerOrInfinity :: "number \<Rightarrow> int" where
  "ToIntegerOrInfinity v = (if 0 \<le> v then \<lfloor>v\<rfloor> else \<lceil>v\<rceil>)"

definition TimeClip :: "number \<Rightarrow> int option" where
  "TimeClip v = (if \<bar>v\<bar> > 8640000000000000 then None else Some (ToIntegerOrInfinity v))"

text \<open>\<open>new Date(value)\<close> with a number: the time value is \<open>TimeClip(value)\<close>.\<close>

definition new_Date :: "number \<Rightarrow> int option" where
  "new_Date v = TimeClip v"

text \<open>
  The year of \<open>toISOString\<close>: four digits from 0 to 9999, otherwise a sign and six
  digits (the expanded years of the Date Time String Format).
\<close>

definition year_string :: "int \<Rightarrow> string" where
  "year_string y =
     (if 0 \<le> y \<and> y \<le> 9999 then ToZeroPaddedDecimalString (nat y) 4
      else (if 0 \<le> y then ''+'' else ''-'') @ ToZeroPaddedDecimalString (nat \<bar>y\<bar>) 6)"

text \<open>
  \<open>Date.prototype.toISOString\<close>: a \<open>RangeError\<close> when the time value is \<open>NaN\<close>
  (the message is the one of Node's engine), otherwise \<open>YYYY-MM-DDTHH:mm:ss.sssZ\<close>.
\<close>

definition toISOString :: "int option \<Rightarrow> thrown + string" where
  "toISOString d =
     (case d of
        None \<Rightarrow> Inl (ErrorObject ''Invalid time value'')
      | Some tv \<Rightarrow>
          Inr (year_string (YearFromTime tv) @ ''-''
               @ ToZeroPaddedDecimalString (nat (MonthFromTime tv + 1)) 2 @ ''-''
               @ ToZeroPaddedDecimalString (nat (DateFromTime tv)) 2 @ ''T''
               @ ToZeroPaddedDecimalString (nat (HourFromTime tv)) 2 @ '':''
               @ ToZeroPaddedDecimalString (nat (MinFromTime tv)) 2 @ '':''
               @ ToZeroPaddedDecimalString (nat (SecFromTime tv)) 2 @ ''.''
               @ ToZeroPaddedDecimalString (nat (msFromTime tv)) 3 @ ''Z''))"

section \<open>Data model\<close>

text \<open>
  \<open>interface StatementItem\<close>: one transaction as the bank sends it. The program casts
  the parsed response body to \<open>StatementItem[]\<close> and reads the fields below; the model
  takes the body at that type. An optional field that is absent is \<open>None\<close>.
\<close>

record StatementItem =
  item_id :: string
  time :: number
  description :: string
  mcc :: number
  originalMcc :: number
  hold :: bool
  amount :: number
  operationAmount :: number
  currencyCode :: number
  commissionRate :: number
  cashbackAmount :: number
  balance :: number
  comment :: "string option"
  receiptId :: "string option"
  invoiceId :: "string option"
  counterEdrpou :: "string option"
  counterIban :: "string option"
  counterName :: "string option"

text \<open>
  \<open>interface ProcessedStatementItem\<close>. Its fields carry the names of the raw item's;
  unqualified names below are those of the processed item, and the raw item's are written
  \<open>StatementItem.amount\<close>.
\<close>

record ProcessedStatementItem =
  time :: string
  description :: string
  mcc :: number
  originalMcc :: number
  hold :: bool
  amount :: number
  operationAmount :: number
  currencyCode :: number
  commissionRate :: number
  cashbackAmount :: number
  balance :: number
  comment :: "string option"
  receiptId :: "string option"
  counterName :: "string option"

text \<open>
  \<open>interface ClientInfo\<close> (with \<open>Account\<close> and \<open>Jar\<close>) only annotates the parsed body of
  the client-info response: the program reads none of its fields and serialises the
  document back as it came, so the model keeps the document itself.
\<close>

type_synonym ClientInfo = jsval

text \<open>The output of \<open>GetStatementArgsSchema.parse\<close>.\<close>

record GetStatementArgs =
  account_id :: string
  from_timestamp :: number
  to_timestamp :: number

section \<open>Argument validation\<close>

text \<open>
  \<open>z.object({account_id: z.string(), from_timestamp: z.number(), to_timestamp:
  z.number()}).parse\<close>, as the validation library documents it: the input must be a plain
  object; each key of the shape is looked up (a missing key reads \<open>undefined\<close>) and
  checked against its type; every failing key contributes one \<open>invalid_type\<close> issue whose
  path is that key, in the order of the shape; an input that is not an object gives one
  issue with the empty path; keys outside the shape are stripped. \<open>parse\<close> throws a
  \<open>ZodError\<close> holding the issues when there is one.
\<close>

datatype ZodIssue = invalid_type (expected: string) (path: "string list")

definition property :: "(string \<times> jsval) list \<Rightarrow> string \<Rightarrow> jsval" where
  "property members key = (case map_of members key of None \<Rightarrow> JUndefined | Some v \<Rightarrow> v)"

definition z_string :: "string \<Rightarrow> jsval \<Rightarrow> ZodIssue list + string" where
  "z_string key v = (case v of JStr s \<Rightarrow> Inr s | _ \<Rightarrow> Inl [invalid_type ''string'' [key]])"

definition z_number :: "string \<Rightarrow> jsval \<Rightarrow> ZodIssue list + number" where
  "z_number key v = (case v of JNum n \<Rightarrow> Inr n | _ \<Rightarrow> Inl [invalid_type ''number'' [key]])"

definition issues_of :: "ZodIssue list + 'a \<Rightarrow> ZodIssue list" where
  "issues_of r = (case r of Inl issues \<Rightarrow> issues | Inr _ \<Rightarrow> [])"

definition GetStatementArgsSchema_parse :: "jsval \<Rightarrow> ZodIssue list + GetStatementArgs" where
  "GetStatementArgsSchema_parse args =
     (case args of
        JObj members \<Rightarrow>
          (let a = z_string ''account_id'' (property members ''account_id'');
               f = z_number ''from_timestamp'' (property members ''from_timestamp'');
               t = z_number ''to_timestamp'' (property members ''to_timestamp'')
           in case (a, f, t) of
                (Inr account, Inr from, Inr to) \<Rightarrow>
                  Inr \<lparr>account_id = account, from_timestamp = from, to_timestamp = to\<rparr>
              | _ \<Rightarrow> Inl (issues_of a @ issues_of f @ issues_of t))
      | _ \<Rightarrow> Inl [invalid_type ''object'' []])"

section \<open>The environment of a call\<close>

text \<open>
  The URL of a request is kept as the template it is built from together with the values
  interpolated into it; \<open>X_Token\<close> is the one header the program sets.
\<close>

datatype url =
    client_info_url
  | statement_url string number number

record request =
  url :: url
  X_Token :: string

text \<open>
  A response: its status, what \<open>response.text()\<close> resolves to and what
  \<open>response.json()\<close> resolves to (each may reject instead).
\<close>

record 'a response =
  status :: nat
  text_body :: "thrown + string"
  json_body :: "thrown + 'a"

definition ok :: "'a response \<Rightarrow> bool" where
  "ok r = (200 \<le> status r \<and> status r \<le> 299)"

text \<open>
  The world a call runs in: the environment variable, the clock (\<open>Date.now()\<close>,
  milliseconds), the upstream behind \<open>fetch\<close> (seen at the type its caller casts the body
  to; \<open>fetch\<close> may reject), and the log of the requests sent so far.
\<close>

record world =
  MONOBANK_API_TOKEN :: "string option"
  Date_now :: int
  fetch_ClientInfo :: "request \<Rightarrow> thrown + ClientInfo response"
  fetch_Statement :: "request \<Rightarrow> thrown + StatementItem list response"
  sent :: "request list"

text \<open>What a tool call rejects with, and what it resolves to.\<close>

datatype failure = Error string | ZodError "ZodIssue list"

record content_block =
  content_type :: string
  content_text :: jsval

record CallToolResult =
  content :: "content_block list"

section \<open>The tools\<close>

text \<open>\<open>process.env.MONOBANK_API_TOKEN || "X_TOKEN_PLACEHOLDER"\<close>: unset and empty are falsy.\<close>

definition token_or_placeholder :: "world \<Rightarrow> string" where
  "token_or_placeholder w =
     (case MONOBANK_API_TOKEN w of
        None \<Rightarrow> ''X_TOKEN_PLACEHOLDER''
      | Some token \<Rightarrow> if token = [] then ''X_TOKEN_PLACEHOLDER'' else token)"

text \<open>The \<open>catch\<close> clause shared by both tools.\<close>

definition catch_clause :: "thrown \<Rightarrow> failure" where
  "catch_clause error =
     (case error of
        ErrorObject message \<Rightarrow> Error (''Failed to connect to Monobank API: '' @ message)
      | NonError s \<Rightarrow> Error (''Failed to connect to Monobank API: '' @ s))"

text \<open>The \<open>if (!response.ok)\<close> block shared by both tools; \<open>None\<close> when it is skipped.\<close>

definition http_error :: "'a response \<Rightarrow> thrown option" where
  "http_error response =
     (if \<not> ok response then
        (case text_body response of
           Inl e \<Rightarrow> Some e
         | Inr errorText \<Rightarrow>
             Some (ErrorObject (''HTTP error! status: '' @ show_nat (status response)
                                @ '', body: '' @ errorText)))
      else None)"

text \<open>
  \<open>JSON.stringify(value, null, 2)\<close> is kept as the document it renders, since no
  property below depends on the layout of the text. A member whose value is \<open>undefined\<close>
  is left out of the document.
\<close>

definition optional_member :: "string \<Rightarrow> string option \<Rightarrow> (string \<times> jsval) list" where
  "optional_member key v = (case v of None \<Rightarrow> [] | Some s \<Rightarrow> [(key, JStr s)])"

definition members_of :: "ProcessedStatementItem \<Rightarrow> (string \<times> jsval) list" where
  "members_of p =
     [(''time'', JStr (time p)),
      (''description'', JStr (description p)),
      (''mcc'', JNum (mcc p)),
      (''originalMcc'', JNum (originalMcc p)),
      (''hold'', JBool (hold p)),
      (''amount'', JNum (amount p)),
      (''operationAmount'', JNum (operationAmount p)),
      (''currencyCode'', JNum (currencyCode p)),
      (''commissionRate'', JNum (commissionRate p)),
      (''cashbackAmount'', JNum (cashbackAmount p)),
      (''balance'', JNum (balance p))]
     @ optional_member ''comment'' (comment p)
     @ optional_member ''receiptId'' (receiptId p)
     @ optional_member ''counterName'' (counterName p)"

definition JSON_stringify :: "ProcessedStatementItem list \<Rightarrow> jsval" where
  "JSON_stringify processedItems = JArr (map (\<lambda>p. JObj (members_of p)) processedItems)"

definition text_result :: "jsval \<Rightarrow> CallToolResult" where
  "text_result document = \<lparr>content = [\<lparr>content_type = ''text'', content_text = document\<rparr>]\<rparr>"

subsection \<open>\<open>getClientInfo\<close>\<close>

definition getClientInfo_try :: "thrown + ClientInfo response \<Rightarrow> thrown + CallToolResult" where
  "getClientInfo_try fetched =
     (case fetched of
        Inl e \<Rightarrow> Inl e
      | Inr response \<Rightarrow>
          (case http_error response of
             Some e \<Rightarrow> Inl e
           | None \<Rightarrow>
               (case json_body response of
                  Inl e \<Rightarrow> Inl e
                | Inr data \<Rightarrow> Inr (text_result data))))"

definition getClientInfo :: "world \<Rightarrow> (failure + CallToolResult) \<times> world" where
  "getClientInfo w =
     (let req = \<lparr>url = client_info_url, X_Token = token_or_placeholder w\<rparr>;
          w' = w\<lparr>sent := sent w @ [req]\<rparr>
      in (case getClientInfo_try (fetch_ClientInfo w req) of
            Inl error \<Rightarrow> Inl (catch_clause error)
          | Inr result \<Rightarrow> Inr result,
          w'))"

subsection \<open>\<open>getStatement\<close>\<close>

text \<open>
  The callback of \<open>data.map\<close>: it throws when \<open>toISOString\<close> does. The product
  \<open>item.time * 1000\<close> is the exact one here. The program's product of doubles equals it
  whenever \<open>time\<close> is a whole number of seconds, as a Unix timestamp is: inside the range
  of a \<open>Date\<close> the exact product is an integer below \<open>2^53\<close>, and beyond the range the
  rounded product stays beyond it. For a fraction of a second the program's product may
  be rounded before the cut to milliseconds, so the instant that a rendered string
  denotes is stated below for whole seconds only.
\<close>

definition processItem :: "StatementItem \<Rightarrow> thrown + ProcessedStatementItem" where
  "processItem item =
     (case toISOString (new_Date (StatementItem.time item * 1000)) of
        Inl e \<Rightarrow> Inl e
      | Inr isoTime \<Rightarrow>
          Inr \<lparr>time = isoTime,
               description = StatementItem.description item,
               mcc = StatementItem.mcc item,
               originalMcc = StatementItem.originalMcc item,
               hold = StatementItem.hold item,
               amount = StatementItem.amount item / 100,
               operationAmount = StatementItem.operationAmount item / 100,
               currencyCode = StatementItem.currencyCode item,
               commissionRate = StatementItem.commissionRate item / 100,
               cashbackAmount = StatementItem.cashbackAmount item / 100,
               balance = StatementItem.balance item / 100,
               comment = StatementItem.comment item,
               receiptId = StatementItem.receiptId item,
               counterName = StatementItem.counterName item\<rparr>)"

text \<open>\<open>data.map(callback)\<close>: the items in order; the first throw ends the loop.\<close>

fun map_items :: "StatementItem list \<Rightarrow> thrown + ProcessedStatementItem list" where
  "map_items [] = Inr []"
| "map_items (item # rest) =
     (case processItem item of
        Inl e \<Rightarrow> Inl e
      | Inr p \<Rightarrow> (case map_items rest of Inl e \<Rightarrow> Inl e | Inr ps \<Rightarrow> Inr (p # ps)))"

definition getStatement_try :: "thrown + StatementItem list response \<Rightarrow> thrown + CallToolResult" where
  "getStatement_try fetched =
     (case fetched of
        Inl e \<Rightarrow> Inl e
      | Inr response \<Rightarrow>
          (case http_error response of
             Some e \<Rightarrow> Inl e
           | None \<Rightarrow>
               (case json_body response of
                  Inl e \<Rightarrow> Inl e
                | Inr data \<Rightarrow>
                    (case map_items data of
                       Inl e \<Rightarrow> Inl e
                     | Inr processedItems \<Rightarrow> Inr (text_result (JSON_stringify processedItems))))))"

text \<open>\<open>to_timestamp || Math.floor(Date.now() / 1000)\<close>: of the numbers only zero is falsy.\<close>

definition finalToTimestamp :: "GetStatementArgs \<Rightarrow> world \<Rightarrow> number" where
  "finalToTimestamp parsed w =
     (if to_timestamp parsed \<noteq> 0 then to_timestamp parsed
      else of_int \<lfloor>of_int (Date_now w) / (1000 :: number)\<rfloor>)"

definition statement_request :: "GetStatementArgs \<Rightarrow> world \<Rightarrow> request" where
  "statement_request parsed w =
     \<lparr>url = statement_url (account_id parsed) (from_timestamp parsed) (finalToTimestamp parsed w),
      X_Token = token_or_placeholder w\<rparr>"

text \<open>\<open>parse\<close> stands before the \<open>try\<close>: its \<open>ZodError\<close> leaves the function as it is.\<close>

definition getStatement :: "jsval \<Rightarrow> world \<Rightarrow> (failure + CallToolResult) \<times> world" where
  "getStatement args w =
     (case GetStatementArgsSchema_parse args of
        Inl issues \<Rightarrow> (Inl (ZodError issues), w)
      | Inr parsed \<Rightarrow>
          (let req = statement_request parsed w;
               w' = w\<lparr>sent := sent w @ [req]\<rparr>
           in (case getStatement_try (fetch_Statement w req) of
                 Inl error \<Rightarrow> Inl (catch_clause error)
               | Inr result \<Rightarrow> Inr result,
               w')))"

subsection \<open>The request handler of \<open>setupServer\<close>\<close>

text \<open>\<open>request.params\<close>; \<open>arguments\<close> is \<open>JUndefined\<close> when the caller sends none.\<close>

record CallToolRequest =
  name :: string
  arguments :: jsval

definition CallToolRequestHandler ::
  "CallToolRequest \<Rightarrow> world \<Rightarrow> (failure + CallToolResult) \<times> world" where
  "CallToolRequestHandler request w =
     (if name request = ''get_client_info'' then getClientInfo w
      else if name request = ''get_statement'' then getStatement (arguments request) w
      else (Inl (Error (''Unknown tool: '' @ name request)), w))"

section \<open>Reading a date-time string\<close>

text \<open>
  What an ISO-8601 UTC string denotes, written from the Date Time String Format of the
  language specification and independent of \<open>toISOString\<close>: the string is
  \<open>YYYY-MM-DDTHH:mm:ss.sssZ\<close>, or the same with an expanded year (a sign and six digits,
  \<open>-000000\<close> excluded); the month is 1 to 12, the day exists in that month of that year,
  the hour is at most 23, minute and second at most 59. Its instant is
  \<open>MakeDate(MakeDay(year, month - 1, day), MakeTime(hour, minute, second, ms))\<close> in
  milliseconds since the epoch. A string that \<open>iso_instant\<close> maps to \<open>None\<close> is not valid.
\<close>

definition digit_value :: "char \<Rightarrow> nat option" where
  "digit_value c =
     map_of [(CHR ''0'', 0), (CHR ''1'', 1), (CHR ''2'', 2), (CHR ''3'', 3), (CHR ''4'', 4),
             (CHR ''5'', 5), (CHR ''6'', 6), (CHR ''7'', 7), (CHR ''8'', 8), (CHR ''9'', 9)] c"

fun read_digits :: "nat \<Rightarrow> string \<Rightarrow> nat option" where
  "read_digits acc [] = Some acc"
| "read_digits acc (c # cs) =
     (case digit_value c of None \<Rightarrow> None | Some d \<Rightarrow> read_digits (10 * acc + d) cs)"

definition take_number :: "nat \<Rightarrow> string \<Rightarrow> (nat \<times> string) option" where
  "take_number k s =
     (if length s < k then None
      else case read_digits 0 (take k s) of None \<Rightarrow> None | Some n \<Rightarrow> Some (n, drop k s))"

definition take_char :: "char \<Rightarrow> string \<Rightarrow> string option" where
  "take_char c s = (case s of [] \<Rightarrow> None | x # xs \<Rightarrow> if x = c then Some xs else None)"

definition take_year :: "string \<Rightarrow> (int \<times> string) option" where
  "take_year s =
     (case take_char (CHR ''+'') s of
        Some r \<Rightarrow> (case take_number 6 r of None \<Rightarrow> None | Some (n, r') \<Rightarrow> Some (int n, r'))
      | None \<Rightarrow>
          (case take_char (CHR ''-'') s of
             Some r \<Rightarrow>
               (case take_number 6 r of
                  None \<Rightarrow> None
                | Some (n, r') \<Rightarrow> if n = 0 then None else Some (- int n, r'))
           | None \<Rightarrow>
               (case take_number 4 s of None \<Rightarrow> None | Some (n, r') \<Rightarrow> Some (int n, r'))))"

definition leap :: "int \<Rightarrow> int" where
  "leap y = (if DaysInYear y = 366 then 1 else 0)"

text \<open>Months are numbered from 1 in the string and from 0 in \<open>MakeDay\<close>.\<close>

definition DaysInMonth :: "int \<Rightarrow> int \<Rightarrow> int" where
  "DaysInMonth y m =
     (if m = 2 then 28 + leap y
      else if m = 4 \<or> m = 6 \<or> m = 9 \<or> m = 11 then 30
      else 31)"

definition DayFromMonth :: "int \<Rightarrow> int \<Rightarrow> int" where
  "DayFromMonth y m =
     (if m = 0 then 0
      else if m = 1 then 31
      else if m = 2 then 59 + leap y
      else if m = 3 then 90 + leap y
      else if m = 4 then 120 + leap y
      else if m = 5 then 151 + leap y
      else if m = 6 then 181 + leap y
      else if m = 7 then 212 + leap y
      else if m = 8 then 243 + leap y
      else if m = 9 then 273 + leap y
      else if m = 10 then 304 + leap y
      else 334 + leap y)"

definition MakeDay :: "int \<Rightarrow> int \<Rightarrow> int \<Rightarrow> int" where
  "MakeDay y m dt = DayFromYear y + DayFromMonth y m + dt - 1"

definition MakeTime :: "int \<Rightarrow> int \<Rightarrow> int \<Rightarrow> int \<Rightarrow> int" where
  "MakeTime h m s ms = h * 3600000 + m * 60000 + s * 1000 + ms"

definition MakeDate :: "int \<Rightarrow> int \<Rightarrow> int" where
  "MakeDate day tm = day * msPerDay + tm"

text \<open>A field of \<open>k\<close> digits followed by the separator \<open>c\<close>.\<close>

definition take_field :: "nat \<Rightarrow> char \<Rightarrow> string \<Rightarrow> (nat \<times> string) option" where
  "take_field k c s =
     Option.bind (take_number k s) (\<lambda>(n, r). map_option (Pair n) (take_char c r))"

definition iso_instant :: "string \<Rightarrow> int option" where
  "iso_instant s =
     Option.bind (take_year s) (\<lambda>(y, s1).
     Option.bind (take_char (CHR ''-'') s1) (\<lambda>s2.
     Option.bind (take_field 2 (CHR ''-'') s2) (\<lambda>(mo, s3).
     Option.bind (take_field 2 (CHR ''T'') s3) (\<lambda>(dd, s4).
     Option.bind (take_field 2 (CHR '':'') s4) (\<lambda>(hh, s5).
     Option.bind (take_field 2 (CHR '':'') s5) (\<lambda>(mi, s6).
     Option.bind (take_field 2 (CHR ''.'') s6) (\<lambda>(ss, s7).
     Option.bind (take_field 3 (CHR ''Z'') s7) (\<lambda>(ms, s8).
       if s8 = [] \<and> 1 \<le> mo \<and> mo \<le> 12 \<and> 1 \<le> dd \<and> int dd \<le> DaysInMonth y (int mo)
          \<and> hh \<le> 23 \<and> mi \<le> 59 \<and> ss \<le> 59
       then Some (MakeDate (MakeDay y (int mo - 1) (int dd))
                           (MakeTime (int hh) (int mi) (int ss) (int ms)))
       else None))))))))"

section \<open>The argument schema in words\<close>

text \<open>
  The schema of \<open>get_statement\<close> as the tool catalogue declares it: an object whose
  \<open>account_id\<close> is a string and whose \<open>from_timestamp\<close> and \<open>to_timestamp\<close> are numbers.
  \<open>offending_paths\<close> lists what an arguments value gets wrong: the fields that are
  missing or of the wrong type, in the order of the schema, each as the path to it; for a
  value that is no object, the empty path (the value itself).
\<close>

definition is_string :: "jsval \<Rightarrow> bool" where
  "is_string v = (case v of JStr _ \<Rightarrow> True | _ \<Rightarrow> False)"

definition is_number :: "jsval \<Rightarrow> bool" where
  "is_number v = (case v of JNum _ \<Rightarrow> True | _ \<Rightarrow> False)"

definition schema_conforms :: "jsval \<Rightarrow> bool" where
  "schema_conforms args =
     (case args of
        JObj members \<Rightarrow>
          is_string (property members ''account_id'')
          \<and> is_number (property members ''from_timestamp'')
          \<and> is_number (property members ''to_timestamp'')
      | _ \<Rightarrow> False)"

definition offending_paths :: "jsval \<Rightarrow> string list list" where
  "offending_paths args =
     (case args of
        JObj members \<Rightarrow>
          (if is_string (property members ''account_id'') then [] else [[''account_id'']])
          @ (if is_number (property members ''from_timestamp'') then [] else [[''from_timestamp'']])
          @ (if is_number (property members ''to_timestamp'') then [] else [[''to_timestamp'']])
      | _ \<Rightarrow> [[]])"

text \<open>The names the processed item is built with.\<close>

definition processed_keys :: "string list" where
  "processed_keys =
     [''time'', ''description'', ''mcc'', ''originalMcc'', ''hold'', ''amount'',
      ''operationAmount'', ''currencyCode'', ''commissionRate'', ''cashbackAmount'',
      ''balance'', ''comment'', ''receiptId'', ''counterName'']"

section \<open>Stubbed upstreams\<close>

text \<open>
  Concrete calls, used to run the tools: a card payment of 150.00 made at
  2023-11-14T22:13:20Z, a refund of 25.00 on hold a hundred seconds later, an item dated
  one second past the last instant a \<open>Date\<close> can hold, and upstreams answering with these
  (one of them with the payment twice, the refund in between) or with
  \<open>401 invalid token\<close>.
\<close>

definition payment :: StatementItem where
  "payment =
     \<lparr>item_id = ''ZuHWzqkKGVo='', time = 1700000000, description = ''Coffee'',
      mcc = 5814, originalMcc = 5814, hold = False, amount = 15000,
      operationAmount = 15000, currencyCode = 980, commissionRate = 0,
      cashbackAmount = 150, balance = 1000000, comment = Some ''thanks'',
      receiptId = None, invoiceId = Some ''2103.v.27'',
      counterEdrpou = Some ''3096889974'',
      counterIban = Some ''UA898999980000355639201001404'', counterName = None\<rparr>"

definition refund :: StatementItem where
  "refund =
     \<lparr>item_id = ''8fKq2mXcPz0='', time = 1700000100, description = ''Refund'',
      mcc = 5411, originalMcc = 5499, hold = True, amount = - 2500,
      operationAmount = - 2500, currencyCode = 980, commissionRate = 50,
      cashbackAmount = 0, balance = 997500, comment = None,
      receiptId = Some ''XXXX-XXXX-XXXX-XXXX'', invoiceId = None,
      counterEdrpou = None, counterIban = None, counterName = Some ''Grocery''\<rparr>"

definition beyond_last_instant :: StatementItem where
  "beyond_last_instant =
     \<lparr>item_id = ''4nHGv9tKpQ1='', time = 8640000000001, description = ''Coffee'',
      mcc = 5814, originalMcc = 5814, hold = False, amount = 15000,
      operationAmount = 15000, currencyCode = 980, commissionRate = 0,
      cashbackAmount = 150, balance = 1000000, comment = None,
      receiptId = None, invoiceId = None, counterEdrpou = None,
      counterIban = None, counterName = None\<rparr>"

definition error_response :: "nat \<Rightarrow> string \<Rightarrow> 'a response" where
  "error_response code body =
     \<lparr>status = code, text_body = Inr body,
      json_body = Inl (ErrorObject ''Unexpected token i in JSON at position 0'')\<rparr>"

definition statement_response :: "StatementItem list \<Rightarrow> StatementItem list response" where
  "statement_response items =
     \<lparr>status = 200, text_body = Inl (ErrorObject ''body used already''), json_body = Inr items\<rparr>"

definition stub :: "(request \<Rightarrow> thrown + StatementItem list response) \<Rightarrow> world" where
  "stub upstream =
     \<lparr>MONOBANK_API_TOKEN = Some ''test-token'',
      Date_now = 1700003600123,
      fetch_ClientInfo = (\<lambda>req. Inr (error_response 401 ''invalid token'')),
      fetch_Statement = upstream,
      sent = []\<rparr>"

definition stub_payment :: world where
  "stub_payment = stub (\<lambda>req. Inr (statement_response [payment]))"

definition stub_history :: world where
  "stub_history = stub (\<lambda>req. Inr (statement_response [payment, refund, payment]))"

definition stub_beyond :: world where
  "stub_beyond = stub (\<lambda>req. Inr (statement_response [payment, beyond_last_instant]))"

definition stub_unauthorized :: world where
  "stub_unauthorized = stub (\<lambda>req. Inr (error_response 401 ''invalid token''))"

definition args_period :: jsval where
  "args_period =
     JObj [(''account_id'', JStr ''0''), (''from_timestamp'', JNum 1700000000),
           (''to_timestamp'', JNum 1700003600)]"

definition args_open_end :: jsval where
  "args_open_end =
     JObj [(''account_id'', JStr ''0''), (''from_timestamp'', JNum 1700000000),
           (''to_timestamp'', JNum 0)]"

definition args_without_from :: jsval where
  "args_without_from = JObj [(''account_id'', JStr ''0''), (''to_timestamp'', JNum 1700003600)]"

definition args_with_extra :: jsval where
  "args_with_extra =
     JObj [(''limit'', JNum 10), (''account_id'', JStr ''0''),
           (''from_timestamp'', JNum 1700000000), (''verbose'', JBool True),
           (''to_timestamp'', JNum 1700003600)]"

definition processed_payment :: ProcessedStatementItem where
  "processed_payment =
     \<lparr>time = ''2023-11-14T22:13:20.000Z'', description = ''Coffee'', mcc = 5814,
      originalMcc = 5814, hold = False, amount = 150, operationAmount = 150,
      currencyCode = 980, commissionRate = 0, cashbackAmount = 3 / 2, balance = 10000,
      comment = Some ''thanks'', receiptId = None, counterName = None\<rparr>"

definition processed_refund :: ProcessedStatementItem where
  "processed_refund =
     \<lparr>time = ''2023-11-14T22:15:00.000Z'', description = ''Refund'', mcc = 5411,
      originalMcc = 5499, hold = True, amount = - 25, operationAmount = - 25,
      currencyCode = 980, commissionRate = 1 / 2, cashbackAmount = 0, balance = 9975,
      comment = None, receiptId = Some ''XXXX-XXXX-XXXX-XXXX'',
      counterName = Some ''Grocery''\<rparr>"

section \<open>The calendar of \<open>toISOString\<close>\<close>

subsection \<open>Years\<close>

lemma div_succ:
  fixes a n :: int
  assumes "0 < n"
  shows "(a + 1) div n = a div n + (if (a + 1) mod n = 0 then 1 else 0)"
proof (cases "(a + 1) mod n = 0")
  case True
  have "a + 1 = n * ((a + 1) div n) + (a + 1) mod n" by simp
  with True have "a = n * ((a + 1) div n - 1) + (n - 1)" by (simp add: algebra_simps)
  then have "a div n = (a + 1) div n - 1"
    using assms by (intro int_div_pos_eq[where r = "n - 1"]) auto
  with True show ?thesis by simp
next
  case False
  have e: "a + 1 = n * ((a + 1) div n) + (a + 1) mod n" by simp
  have "0 \<le> (a + 1) mod n" "(a + 1) mod n < n" using assms by simp_all
  with False have r: "0 \<le> (a + 1) mod n - 1" "(a + 1) mod n - 1 < n" by linarith+
  from e have "a = n * ((a + 1) div n) + ((a + 1) mod n - 1)" by linarith
  then have "a div n = (a + 1) div n"
    using r by (intro int_div_pos_eq[where r = "(a + 1) mod n - 1"]) auto
  with False show ?thesis by simp
qed

lemma mod_shift:
  fixes y c n :: int
  shows "(y - n * c) mod n = y mod n"
  by (metis mod_diff_right_eq mod_mult_self1_is_0 diff_zero)

lemma leap_mods:
  fixes y :: int
  shows "(y - 1968) mod 4 = 0 \<longleftrightarrow> y mod 4 = 0"
    and "(y - 1900) mod 100 = 0 \<longleftrightarrow> y mod 100 = 0"
    and "(y - 1600) mod 400 = 0 \<longleftrightarrow> y mod 400 = 0"
  using mod_shift[of y 4 492] mod_shift[of y 100 19] mod_shift[of y 400 4] by simp_all

lemma leap_dvd:
  fixes y :: int
  shows "y mod 100 = 0 \<Longrightarrow> y mod 4 = 0"
    and "y mod 400 = 0 \<Longrightarrow> y mod 100 = 0"
proof -
  have "(4::int) dvd 100" "(100::int) dvd 400" by simp_all
  then show "y mod 100 = 0 \<Longrightarrow> y mod 4 = 0" "y mod 400 = 0 \<Longrightarrow> y mod 100 = 0"
    by (meson dvd_trans mod_eq_0_iff_dvd)+
qed

lemma DayFromYear_step: "DayFromYear (y + 1) = DayFromYear y + DaysInYear y"
proof -
  have a: "(y + 1 - 1969) div 4 = (y - 1969) div 4 + (if y mod 4 = 0 then 1 else 0)"
    using div_succ[of 4 "y - 1969"] leap_mods(1)[of y] by (simp add: algebra_simps)
  have b: "(y + 1 - 1901) div 100 = (y - 1901) div 100 + (if y mod 100 = 0 then 1 else 0)"
    using div_succ[of 100 "y - 1901"] leap_mods(2)[of y] by (simp add: algebra_simps)
  have c: "(y + 1 - 1601) div 400 = (y - 1601) div 400 + (if y mod 400 = 0 then 1 else 0)"
    using div_succ[of 400 "y - 1601"] leap_mods(3)[of y] by (simp add: algebra_simps)
  show ?thesis
    unfolding DayFromYear_def DaysInYear_def a b c
    using leap_dvd[of y] by auto
qed

lemma div_lower:
  fixes a n :: int
  assumes "0 < n"
  shows "n * (a div n) \<le> a"
proof -
  have "n * (a div n) + a mod n = a" by simp
  moreover have "0 \<le> a mod n" using assms by simp
  ultimately show ?thesis by linarith
qed

lemma div_upper:
  fixes a n :: int
  assumes "0 < n"
  shows "a < n * (a div n) + n"
proof -
  have "n * (a div n) + a mod n = a" by simp
  moreover have "a mod n < n" using assms by simp
  ultimately show ?thesis by linarith
qed

text \<open>DayFromYear lies within two days of the mean-year line.\<close>

lemma DayFromYear_upper: "400 * DayFromYear y \<le> 146097 * y - 287810501"
proof -
  define q4 where "q4 = (y - 1969) div 4"
  define q100 where "q100 = (y - 1901) div 100"
  define q400 where "q400 = (y - 1601) div 400"
  have "4 * q4 \<le> y - 1969" unfolding q4_def by (rule div_lower) simp
  moreover have "y - 1901 < 100 * q100 + 100" unfolding q100_def by (rule div_upper) simp
  moreover have "400 * q400 \<le> y - 1601" unfolding q400_def by (rule div_lower) simp
  ultimately have "146000 * y - 287620000 + 400 * q4 - 400 * q100 + 400 * q400
      \<le> 146097 * y - 287810501"
    by linarith
  then show ?thesis
    unfolding DayFromYear_def q4_def q100_def q400_def by (simp add: algebra_simps)
qed

lemma DayFromYear_lower: "146097 * y - 287811596 \<le> 400 * DayFromYear y"
proof -
  define q4 where "q4 = (y - 1969) div 4"
  define q100 where "q100 = (y - 1901) div 100"
  define q400 where "q400 = (y - 1601) div 400"
  have "y - 1969 < 4 * q4 + 4" unfolding q4_def by (rule div_upper) simp
  moreover have "100 * q100 \<le> y - 1901" unfolding q100_def by (rule div_lower) simp
  moreover have "y - 1601 < 400 * q400 + 400" unfolding q400_def by (rule div_upper) simp
  ultimately have "146097 * y - 287811596
      \<le> 146000 * y - 287620000 + 400 * q4 - 400 * q100 + 400 * q400"
    by linarith
  then show ?thesis
    unfolding DayFromYear_def q4_def q100_def q400_def by (simp add: algebra_simps)
qed

lemma YearFromTime_bounds:
  "DayFromYear (YearFromTime t) \<le> Day t \<and> Day t < DayFromYear (YearFromTime t + 1)"
proof -
  define d where "d = Day t"
  define k where "k = (400 * d) div 146097"
  have k1: "146097 * k \<le> 400 * d" unfolding k_def by (rule div_lower) simp
  have k2: "400 * d < 146097 * k + 146097"
    using div_upper[of 146097 "400 * d"] unfolding k_def by simp
  have "146097 * (1970 + k - 1) = 146097 * k + 287664993" by simp
  then have lo: "DayFromYear (1970 + k - 1) \<le> d"
    using DayFromYear_upper[of "1970 + k - 1"] k1 by linarith
  have "146097 * (1970 + k + 1 + 1) = 146097 * k + 288103284" by simp
  then have hi: "d < DayFromYear (1970 + k + 1 + 1)"
    using DayFromYear_lower[of "1970 + k + 1 + 1"] k2 by linarith
  show ?thesis
    unfolding YearFromTime_def Let_def d_def[symmetric] k_def[symmetric]
    using lo hi by auto
qed

lemma DaysInYear_pos: "365 \<le> DaysInYear y" "DaysInYear y \<le> 366"
  by (simp_all add: DaysInYear_def)

lemma DayFromYear_mono: "y \<le> z \<Longrightarrow> DayFromYear y \<le> DayFromYear z"
proof (induction z rule: int_ge_induct)
  case base
  show ?case by simp
next
  case (step i)
  then show ?case using DayFromYear_step[of i] DaysInYear_pos(1)[of i] by linarith
qed

lemma TimeFromYear_le_iff: "TimeFromYear y \<le> t \<longleftrightarrow> DayFromYear y \<le> Day t"
proof
  assume "TimeFromYear y \<le> t"
  then have "msPerDay * DayFromYear y \<le> t" by (simp add: TimeFromYear_def)
  moreover have "t < msPerDay * Day t + msPerDay"
    unfolding Day_def by (rule div_upper) (simp add: msPerDay_def)
  ultimately have "msPerDay * DayFromYear y < msPerDay * (Day t + 1)"
    by (simp add: algebra_simps)
  then have "DayFromYear y < Day t + 1" by (simp add: msPerDay_def)
  then show "DayFromYear y \<le> Day t" by simp
next
  assume "DayFromYear y \<le> Day t"
  then have "msPerDay * DayFromYear y \<le> msPerDay * Day t" by (simp add: msPerDay_def)
  moreover have "msPerDay * Day t \<le> t"
    unfolding Day_def by (rule div_lower) (simp add: msPerDay_def)
  ultimately show "TimeFromYear y \<le> t" by (simp add: TimeFromYear_def)
qed

lemma YearFromTime_largest:
  "TimeFromYear (YearFromTime t) \<le> t \<and> (\<forall>y. TimeFromYear y \<le> t \<longrightarrow> y \<le> YearFromTime t)"
proof (intro conjI allI impI)
  show "TimeFromYear (YearFromTime t) \<le> t"
    using YearFromTime_bounds[of t] by (simp add: TimeFromYear_le_iff)
next
  fix y
  assume "TimeFromYear y \<le> t"
  then have "DayFromYear y \<le> Day t" by (simp add: TimeFromYear_le_iff)
  with YearFromTime_bounds[of t] have "DayFromYear y < DayFromYear (YearFromTime t + 1)"
    by linarith
  then have "\<not> YearFromTime t + 1 \<le> y" using DayFromYear_mono[of "YearFromTime t + 1" y]
    by linarith
  then show "y \<le> YearFromTime t" by simp
qed

lemma DayWithinYear_bounds:
  "0 \<le> DayWithinYear t" "DayWithinYear t < DaysInYear (YearFromTime t)"
  using YearFromTime_bounds[of t] DayFromYear_step[of "YearFromTime t"]
  by (simp_all add: DayWithinYear_def)

lemma DayWithinYear_leap: "DayWithinYear t < 365 + InLeapYear t"
  using DayWithinYear_bounds(2)[of t] DaysInYear_pos[of "YearFromTime t"]
  by (auto simp: InLeapYear_def)

lemma InLeapYear_cases: "InLeapYear t = 0 \<or> InLeapYear t = 1"
  by (simp add: InLeapYear_def)

subsection \<open>Decimal fields\<close>

lemma digit_value_digit_char: "d < 10 \<Longrightarrow> digit_value (digit_char d) = Some d"
proof -
  assume "d < 10"
  then have "d = 0 \<or> d = 1 \<or> d = 2 \<or> d = 3 \<or> d = 4 \<or> d = 5 \<or> d = 6 \<or> d = 7 \<or> d = 8 \<or> d = 9"
    by presburger
  then show ?thesis
    by (elim disjE) (simp_all add: digit_char_def digit_value_def)
qed

lemma digit_char_in: "d < 10 \<Longrightarrow> digit_char d \<in> set ''0123456789''"
proof -
  assume "d < 10"
  then have "d = 0 \<or> d = 1 \<or> d = 2 \<or> d = 3 \<or> d = 4 \<or> d = 5 \<or> d = 6 \<or> d = 7 \<or> d = 8 \<or> d = 9"
    by presburger
  then show ?thesis
    by (elim disjE) (simp_all add: digit_char_def)
qed

lemma read_digits_snoc:
  "read_digits acc (xs @ [c]) =
     (case read_digits acc xs of
        None \<Rightarrow> None
      | Some a \<Rightarrow> (case digit_value c of None \<Rightarrow> None | Some d \<Rightarrow> Some (10 * a + d)))"
  by (induction xs arbitrary: acc) (auto split: option.splits)

lemma read_digits_show_nat: "read_digits 0 (show_nat n) = Some n"
proof (induction n rule: show_nat.induct)
  case (1 n)
  show ?case
  proof (cases "n < 10")
    case True
    then show ?thesis by (simp add: show_nat.simps[of n] digit_value_digit_char)
  next
    case False
    then have "read_digits 0 (show_nat (n div 10)) = Some (n div 10)" using 1 by simp
    moreover have "n mod 10 < 10" by simp
    ultimately show ?thesis
      using False by (simp add: show_nat.simps[of n] read_digits_snoc digit_value_digit_char)
  qed
qed

lemma read_digits_zeros: "read_digits 0 (replicate k (CHR ''0'') @ s) = read_digits 0 s"
  by (induction k) (simp_all add: digit_value_def)

lemma length_show_nat: "n < 10 ^ k \<Longrightarrow> 0 < k \<Longrightarrow> length (show_nat n) \<le> k"
proof (induction n arbitrary: k rule: show_nat.induct)
  case (1 n)
  show ?case
  proof (cases "n < 10")
    case True
    then show ?thesis using 1(3) by (simp add: show_nat.simps[of n])
  next
    case False
    obtain j where k: "k = Suc j" using 1(3) by (cases k) auto
    have "j \<noteq> 0" using False 1(2) k by (cases j) auto
    moreover have "n div 10 < 10 ^ j" using 1(2) k by (simp add: less_mult_imp_div_less mult.commute)
    ultimately have "length (show_nat (n div 10)) \<le> j" using 1(1)[OF False, of j] by simp
    then show ?thesis using False k by (simp add: show_nat.simps[of n])
  qed
qed

lemma length_pad:
  "n < 10 ^ k \<Longrightarrow> 0 < k \<Longrightarrow> length (ToZeroPaddedDecimalString n k) = k"
  using length_show_nat[of n k] by (simp add: ToZeroPaddedDecimalString_def)

lemma read_digits_pad: "read_digits 0 (ToZeroPaddedDecimalString n k) = Some n"
  by (simp add: ToZeroPaddedDecimalString_def read_digits_zeros read_digits_show_nat)

lemma take_number_pad:
  "n < 10 ^ k \<Longrightarrow> 0 < k \<Longrightarrow>
   take_number k (ToZeroPaddedDecimalString n k @ rest) = Some (n, rest)"
  using length_pad[of n k] by (simp add: take_number_def read_digits_pad)

lemma show_nat_digits: "set (show_nat n) \<subseteq> set ''0123456789''"
proof (induction n rule: show_nat.induct)
  case (1 n)
  show ?case
  proof (cases "n < 10")
    case True
    then show ?thesis using digit_char_in[of n] by (simp add: show_nat.simps[of n])
  next
    case False
    have "n mod 10 < 10" by simp
    then show ?thesis
      using False 1 digit_char_in[of "n mod 10"] by (simp add: show_nat.simps[of n])
  qed
qed

lemma pad_digits: "set (ToZeroPaddedDecimalString n k) \<subseteq> set ''0123456789''"
  using show_nat_digits[of n] by (auto simp: ToZeroPaddedDecimalString_def)

lemma take_char_pad:
  assumes "c \<notin> set ''0123456789''" "n < 10 ^ k" "0 < k"
  shows "take_char c (ToZeroPaddedDecimalString n k @ rest) = None"
proof -
  obtain x xs where p: "ToZeroPaddedDecimalString n k = x # xs"
    using length_pad[OF assms(2,3)] assms(3) by (cases "ToZeroPaddedDecimalString n k") auto
  then have "x \<in> set ''0123456789''" using pad_digits[of n k] by auto
  then have "x \<noteq> c" using assms(1) by auto
  then show ?thesis by (simp add: p take_char_def)
qed

lemma take_field_pad:
  "n < 10 ^ k \<Longrightarrow> 0 < k \<Longrightarrow>
   take_field k c (ToZeroPaddedDecimalString n k @ c # rest) = Some (n, rest)"
  by (simp add: take_field_def take_number_pad take_char_def)

lemma take_year_string:
  assumes "\<bar>y\<bar> < 1000000"
  shows "take_year (year_string y @ rest) = Some (y, rest)"
proof -
  consider "0 \<le> y \<and> y \<le> 9999" | "9999 < y" | "y < 0" by linarith
  then show ?thesis
  proof cases
    case 1
    then have n: "nat y < 10 ^ 4" by auto
    have "take_char (CHR ''+'') (ToZeroPaddedDecimalString (nat y) 4 @ rest) = None"
      "take_char (CHR ''-'') (ToZeroPaddedDecimalString (nat y) 4 @ rest) = None"
      using n by (simp_all add: take_char_pad)
    then show ?thesis using 1 n by (simp add: take_year_def year_string_def take_number_pad)
  next
    case 2
    then have "nat \<bar>y\<bar> < 10 ^ 6" using assms by auto
    then show ?thesis
      using 2 by (simp add: take_year_def year_string_def take_number_pad take_char_def)
  next
    case 3
    then have "nat \<bar>y\<bar> < 10 ^ 6" using assms by auto
    then show ?thesis
      using 3 by (simp add: take_year_def year_string_def take_number_pad take_char_def)
  qed
qed

subsection \<open>Months, days and the time of day\<close>

lemma Day_range:
  assumes "\<bar>tv\<bar> \<le> 8640000000000000"
  shows "- 100000000 \<le> Day tv" "Day tv \<le> 100000000"
proof -
  have a: "86400000 * (tv div 86400000) \<le> tv" by (rule div_lower) simp
  have b: "tv < 86400000 * (tv div 86400000) + 86400000" by (rule div_upper) simp
  show "- 100000000 \<le> Day tv" using assms b unfolding Day_def msPerDay_def by linarith
  show "Day tv \<le> 100000000" using assms a unfolding Day_def msPerDay_def by linarith
qed

lemma YearFromTime_range:
  assumes "\<bar>tv\<bar> \<le> 8640000000000000"
  shows "\<bar>YearFromTime tv\<bar> < 1000000"
proof -
  define y where "y = YearFromTime tv"
  have b: "DayFromYear y \<le> Day tv" "Day tv < DayFromYear (y + 1)"
    using YearFromTime_bounds[of tv] by (simp_all add: y_def)
  have "146097 * (y + 1) = 146097 * y + 146097" by simp
  then have "- 1000000 < y"
    using DayFromYear_upper[of "y + 1"] b(2) Day_range(1)[OF assms] by linarith
  moreover have "y < 1000000"
    using DayFromYear_lower[of y] b(1) Day_range(2)[OF assms] by linarith
  ultimately show ?thesis unfolding y_def by linarith
qed

lemma leap_YearFromTime: "leap (YearFromTime t) = InLeapYear t"
  by (simp add: leap_def InLeapYear_def)

lemma MonthFromTime_range: "0 \<le> MonthFromTime t" "MonthFromTime t \<le> 11"
  by (simp_all add: MonthFromTime_def Let_def)

lemma month_table:
  fixes d l :: int
  assumes "0 \<le> d" "d < 365 + l" "l = 0 \<or> l = 1"
  defines "m \<equiv> (if d < 31 then 0
         else if d < 59 + l then 1
         else if d < 90 + l then 2
         else if d < 120 + l then 3
         else if d < 151 + l then 4
         else if d < 181 + l then 5
         else if d < 212 + l then 6
         else if d < 243 + l then 7
         else if d < 273 + l then 8
         else if d < 304 + l then 9
         else if d < 334 + l then 10
         else (11::int))"
  defines "dt \<equiv> (if m = 0 then d + 1
         else if m = 1 then d - 30
         else if m = 2 then d - 58 - l
         else if m = 3 then d - 89 - l
         else if m = 4 then d - 119 - l
         else if m = 5 then d - 150 - l
         else if m = 6 then d - 180 - l
         else if m = 7 then d - 211 - l
         else if m = 8 then d - 242 - l
         else if m = 9 then d - 272 - l
         else if m = 10 then d - 303 - l
         else d - 333 - l)"
  defines "before \<equiv> (if m = 0 then 0
      else if m = 1 then 31
      else if m = 2 then 59 + l
      else if m = 3 then 90 + l
      else if m = 4 then 120 + l
      else if m = 5 then 151 + l
      else if m = 6 then 181 + l
      else if m = 7 then 212 + l
      else if m = 8 then 243 + l
      else if m = 9 then 273 + l
      else if m = 10 then 304 + l
      else 334 + l)"
  defines "mlen \<equiv> (if m + 1 = 2 then 28 + l
      else if m + 1 = 4 \<or> m + 1 = 6 \<or> m + 1 = 9 \<or> m + 1 = 11 then 30
      else 31)"
  shows "1 \<le> dt" "dt \<le> mlen" "before + dt - 1 = d"
proof -
  consider "m = 0" | "m = 1" | "m = 2" | "m = 3" | "m = 4" | "m = 5" | "m = 6"
    | "m = 7" | "m = 8" | "m = 9" | "m = 10" | "m = 11"
    unfolding m_def by presburger
  then have "1 \<le> dt \<and> dt \<le> mlen \<and> before + dt - 1 = d"
  proof cases
    case 1 then show ?thesis using assms(1-3) unfolding dt_def before_def mlen_def
      by (simp add: m_def split: if_splits)
  next
    case 2 then show ?thesis using assms(1-3) unfolding dt_def before_def mlen_def
      by (simp add: m_def split: if_splits)
  next
    case 3 then show ?thesis using assms(1-3) unfolding dt_def before_def mlen_def
      by (simp add: m_def split: if_splits)
  next
    case 4 then show ?thesis using assms(1-3) unfolding dt_def before_def mlen_def
      by (simp add: m_def split: if_splits)
  next
    case 5 then show ?thesis using assms(1-3) unfolding dt_def before_def mlen_def
      by (simp add: m_def split: if_splits)
  next
    case 6 then show ?thesis using assms(1-3) unfolding dt_def before_def mlen_def
      by (simp add: m_def split: if_splits)
  next
    case 7 then show ?thesis using assms(1-3) unfolding dt_def before_def mlen_def
      by (simp add: m_def split: if_splits)
  next
    case 8 then show ?thesis using assms(1-3) unfolding dt_def before_def mlen_def
      by (simp add: m_def split: if_splits)
  next
    case 9 then show ?thesis using assms(1-3) unfolding dt_def before_def mlen_def
      by (simp add: m_def split: if_splits)
  next
    case 10 then show ?thesis using assms(1-3) unfolding dt_def before_def mlen_def
      by (simp add: m_def split: if_splits)
  next
    case 11 then show ?thesis using assms(1-3) unfolding dt_def before_def mlen_def
      by (simp add: m_def split: if_splits)
  next
    case 12 then show ?thesis using assms(1-3) unfolding dt_def before_def mlen_def
      by (simp add: m_def split: if_splits)
  qed
  then show "1 \<le> dt" "dt \<le> mlen" "before + dt - 1 = d" by simp_all
qed

lemma DateFromTime_facts:
  "1 \<le> DateFromTime t"
  "DateFromTime t \<le> DaysInMonth (YearFromTime t) (MonthFromTime t + 1)"
  "DayFromMonth (YearFromTime t) (MonthFromTime t) + DateFromTime t - 1 = DayWithinYear t"
  using month_table[OF DayWithinYear_bounds(1)[of t] DayWithinYear_leap[of t] InLeapYear_cases[of t]]
  unfolding DateFromTime_def MonthFromTime_def DaysInMonth_def DayFromMonth_def Let_def
    leap_YearFromTime
  by simp_all

lemma time_fields_range:
  "0 \<le> HourFromTime t" "HourFromTime t \<le> 23"
  "0 \<le> MinFromTime t" "MinFromTime t \<le> 59"
  "0 \<le> SecFromTime t" "SecFromTime t \<le> 59"
  "0 \<le> msFromTime t" "msFromTime t \<le> 999"
proof -
  have "HourFromTime t < 24" "MinFromTime t < 60" "SecFromTime t < 60" "msFromTime t < 1000"
    by (simp_all add: HourFromTime_def MinFromTime_def SecFromTime_def msFromTime_def)
  then show "HourFromTime t \<le> 23" "MinFromTime t \<le> 59" "SecFromTime t \<le> 59"
    "msFromTime t \<le> 999" by simp_all
  show "0 \<le> HourFromTime t" "0 \<le> MinFromTime t" "0 \<le> SecFromTime t" "0 \<le> msFromTime t"
    by (simp_all add: HourFromTime_def MinFromTime_def SecFromTime_def msFromTime_def)
qed

lemma time_of_day:
  "MakeDate (Day t) (MakeTime (HourFromTime t) (MinFromTime t) (SecFromTime t) (msFromTime t)) = t"
proof -
  have s: "t div 60000 = t div 1000 div 60" using zdiv_zmult2_eq[of 60 t 1000] by simp
  have m: "t div 3600000 = t div 60000 div 60" using zdiv_zmult2_eq[of 60 t 60000] by simp
  have h: "t div 86400000 = t div 3600000 div 24" using zdiv_zmult2_eq[of 24 t 3600000] by simp
  have 1: "t = 1000 * (t div 1000) + t mod 1000" by simp
  have 2: "t div 1000 = 60 * (t div 60000) + (t div 1000) mod 60" unfolding s by simp
  have 3: "t div 60000 = 60 * (t div 3600000) + (t div 60000) mod 60" unfolding m by simp
  have 4: "t div 3600000 = 24 * (t div 86400000) + (t div 3600000) mod 24" unfolding h by simp
  show ?thesis
    unfolding MakeDate_def MakeTime_def Day_def msPerDay_def HourFromTime_def MinFromTime_def
      SecFromTime_def msFromTime_def
    using 1 2 3 4 by linarith
qed

lemma MakeDay_fields:
  "MakeDay (YearFromTime t) (MonthFromTime t) (DateFromTime t) = Day t"
  using DateFromTime_facts(3)[of t] by (simp add: MakeDay_def DayWithinYear_def)

lemma toISOString_decodes:
  assumes "\<bar>tv\<bar> \<le> 8640000000000000"
  shows "\<exists>s. toISOString (Some tv) = Inr s \<and> iso_instant s = Some tv"
proof -
  define mo where "mo = nat (MonthFromTime tv + 1)"
  define dd where "dd = nat (DateFromTime tv)"
  define hh where "hh = nat (HourFromTime tv)"
  define mi where "mi = nat (MinFromTime tv)"
  define ss where "ss = nat (SecFromTime tv)"
  define ms where "ms = nat (msFromTime tv)"
  have imo: "int mo = MonthFromTime tv + 1" "1 \<le> mo" "mo \<le> 12"
    using MonthFromTime_range[of tv] by (simp_all add: mo_def)
  have idd: "int dd = DateFromTime tv" "1 \<le> dd"
    using DateFromTime_facts(1)[of tv] by (simp_all add: dd_def)
  have dd_le: "int dd \<le> DaysInMonth (YearFromTime tv) (int mo)"
    using DateFromTime_facts(2)[of tv] by (simp add: idd imo)
  have "DaysInMonth (YearFromTime tv) (int mo) \<le> 31"
    by (simp add: DaysInMonth_def leap_def)
  then have dd99: "dd < 10 ^ 2" using dd_le by simp
  have ihh: "int hh = HourFromTime tv" "hh \<le> 23"
    using time_fields_range(1,2)[of tv] by (simp_all add: hh_def)
  have imi: "int mi = MinFromTime tv" "mi \<le> 59"
    using time_fields_range(3,4)[of tv] by (simp_all add: mi_def)
  have iss: "int ss = SecFromTime tv" "ss \<le> 59"
    using time_fields_range(5,6)[of tv] by (simp_all add: ss_def)
  have ims: "int ms = msFromTime tv" "ms \<le> 999"
    using time_fields_range(7,8)[of tv] by (simp_all add: ms_def)
  have f2: "take_field 2 c (ToZeroPaddedDecimalString n 2 @ c # r) = Some (n, r)"
    if "n \<le> 99" for n c r
    using that by (intro take_field_pad) simp_all
  have f3: "take_field 3 c (ToZeroPaddedDecimalString n 3 @ c # r) = Some (n, r)"
    if "n \<le> 999" for n c r
    using that by (intro take_field_pad) simp_all
  have small: "mo \<le> 99" "dd \<le> 99" "hh \<le> 99" "mi \<le> 99" "ss \<le> 99"
    using imo(3) dd99 ihh(2) imi(2) iss(2) by simp_all
  have inst: "MakeDate (MakeDay (YearFromTime tv) (int mo - 1) (int dd))
                 (MakeTime (int hh) (int mi) (int ss) (int ms)) = tv"
    by (simp add: imo idd ihh imi iss ims MakeDay_fields time_of_day)
  let ?s = "year_string (YearFromTime tv) @ ''-''
               @ ToZeroPaddedDecimalString mo 2 @ ''-''
               @ ToZeroPaddedDecimalString dd 2 @ ''T''
               @ ToZeroPaddedDecimalString hh 2 @ '':''
               @ ToZeroPaddedDecimalString mi 2 @ '':''
               @ ToZeroPaddedDecimalString ss 2 @ ''.''
               @ ToZeroPaddedDecimalString ms 3 @ ''Z''"
  have "toISOString (Some tv) = Inr ?s"
    by (simp add: toISOString_def mo_def dd_def hh_def mi_def ss_def ms_def)
  moreover have "iso_instant ?s = Some tv"
    unfolding iso_instant_def using imo(2) idd(2)
    by (simp add: take_year_string[OF YearFromTime_range[OF assms]] take_char_def
        f2[OF small(1)] f2[OF small(2)] f2[OF small(3)] f2[OF small(4)] f2[OF small(5)]
        f3[OF ims(2)] imo(2,3) idd(2) dd_le ihh(2) imi(2) iss(2) inst)
  ultimately show ?thesis by blast
qed

section \<open>Properties of the tools\<close>

subsection \<open>The tools, step by step\<close>

lemma floor_seconds: "\<lfloor>of_int n / (1000 :: rat)\<rfloor> = n div 1000"
  using floor_divide_of_int_eq[of n 1000, where ?'a = rat] by simp

lemma map_items_Inr:
  "map_items data = Inr ps \<Longrightarrow> list_all2 (\<lambda>item p. processItem item = Inr p) data ps"
  by (induction data arbitrary: ps) (auto split: sum.splits)

lemma map_items_total:
  "\<forall>item \<in> set data. \<exists>p. processItem item = Inr p \<Longrightarrow> \<exists>ps. map_items data = Inr ps"
  by (induction data) (auto split: sum.splits)

lemma processItem_fields:
  assumes "processItem item = Inr p"
  shows "amount p = StatementItem.amount item / 100"
    and "operationAmount p = StatementItem.operationAmount item / 100"
    and "commissionRate p = StatementItem.commissionRate item / 100"
    and "cashbackAmount p = StatementItem.cashbackAmount item / 100"
    and "balance p = StatementItem.balance item / 100"
    and "description p = StatementItem.description item"
    and "mcc p = StatementItem.mcc item"
    and "originalMcc p = StatementItem.originalMcc item"
    and "hold p = StatementItem.hold item"
    and "currencyCode p = StatementItem.currencyCode item"
    and "comment p = StatementItem.comment item"
    and "receiptId p = StatementItem.receiptId item"
    and "counterName p = StatementItem.counterName item"
    and "toISOString (new_Date (StatementItem.time item * 1000)) = Inr (time p)"
  using assms by (auto simp: processItem_def split: sum.splits)

lemma getStatement_parsed:
  assumes "GetStatementArgsSchema_parse args = Inr parsed"
  shows "getStatement args w =
     (case getStatement_try (fetch_Statement w (statement_request parsed w)) of
        Inl error \<Rightarrow> Inl (catch_clause error)
      | Inr result \<Rightarrow> Inr result,
      w\<lparr>sent := sent w @ [statement_request parsed w]\<rparr>)"
  using assms by (simp add: getStatement_def Let_def)

lemma getStatement_resolves:
  assumes "GetStatementArgsSchema_parse args = Inr parsed"
    and "fetch_Statement w (statement_request parsed w) = Inr response"
    and "json_body response = Inr data"
    and "fst (getStatement args w) = Inr result"
  shows "ok response \<and> (\<exists>ps. map_items data = Inr ps \<and> result = text_result (JSON_stringify ps))"
  using assms(2-4) unfolding getStatement_parsed[OF assms(1)]
  by (auto simp: getStatement_try_def http_error_def split: sum.splits option.splits if_splits)

lemma processItem_payment: "processItem payment = Inr processed_payment"
  by code_simp

lemma parse_period:
  "GetStatementArgsSchema_parse args_period =
     Inr \<lparr>account_id = ''0'', from_timestamp = 1700000000, to_timestamp = 1700003600\<rparr>"
  by (simp add: GetStatementArgsSchema_parse_def args_period_def property_def z_string_def
      z_number_def)

lemma getStatement_period_payment:
  "fst (getStatement args_period stub_payment) = Inr (text_result (JSON_stringify [processed_payment]))"
  by (simp add: getStatement_parsed[OF parse_period] stub_payment_def stub_def
      statement_response_def getStatement_try_def http_error_def ok_def processItem_payment)

lemma members_of_keys:
  "set (map fst (members_of p)) \<subseteq> set processed_keys"
  by (auto simp: members_of_def optional_member_def processed_keys_def split: option.splits)

lemma members_of_lookup:
  "map_of (members_of p) ''time'' = Some (JStr (time p))"
  "map_of (members_of p) ''description'' = Some (JStr (description p))"
  "map_of (members_of p) ''mcc'' = Some (JNum (mcc p))"
  "map_of (members_of p) ''originalMcc'' = Some (JNum (originalMcc p))"
  "map_of (members_of p) ''hold'' = Some (JBool (hold p))"
  "map_of (members_of p) ''amount'' = Some (JNum (amount p))"
  "map_of (members_of p) ''operationAmount'' = Some (JNum (operationAmount p))"
  "map_of (members_of p) ''currencyCode'' = Some (JNum (currencyCode p))"
  "map_of (members_of p) ''commissionRate'' = Some (JNum (commissionRate p))"
  "map_of (members_of p) ''cashbackAmount'' = Some (JNum (cashbackAmount p))"
  "map_of (members_of p) ''balance'' = Some (JNum (balance p))"
  "map_of (members_of p) ''comment'' = map_option JStr (comment p)"
  "map_of (members_of p) ''receiptId'' = map_option JStr (receiptId p)"
  "map_of (members_of p) ''counterName'' = map_option JStr (counterName p)"
  by (simp_all add: members_of_def optional_member_def split: option.splits)

subsection \<open>Statement normalisation\<close>

text \<open>
  Claim C1. For every valid \<open>get_statement\<close> call that resolves and every element of the
  upstream sequence, the emitted item's \<open>amount\<close> is the raw amount divided by 100, and
  likewise \<open>operationAmount\<close>, \<open>commissionRate\<close>, \<open>cashbackAmount\<close> and \<open>balance\<close>.
  The emitted items are read off the returned document, position by position.
\<close>

theorem amounts_in_major_units:
  assumes "GetStatementArgsSchema_parse args = Inr parsed"
    and "fetch_Statement w (statement_request parsed w) = Inr response"
    and "json_body response = Inr data"
    and "fst (getStatement args w) = Inr result"
  shows "\<exists>ps. result = text_result (JArr (map (\<lambda>p. JObj (members_of p)) ps))
           \<and> length ps = length data
           \<and> (\<forall>i < length data.
                 map_of (members_of (ps ! i)) ''amount''
                   = Some (JNum (StatementItem.amount (data ! i) / 100))
               \<and> map_of (members_of (ps ! i)) ''operationAmount''
                   = Some (JNum (StatementItem.operationAmount (data ! i) / 100))
               \<and> map_of (members_of (ps ! i)) ''commissionRate''
                   = Some (JNum (StatementItem.commissionRate (data ! i) / 100))
               \<and> map_of (members_of (ps ! i)) ''cashbackAmount''
                   = Some (JNum (StatementItem.cashbackAmount (data ! i) / 100))
               \<and> map_of (members_of (ps ! i)) ''balance''
                   = Some (JNum (StatementItem.balance (data ! i) / 100)))"
proof -
  obtain ps where ps: "map_items data = Inr ps" "result = text_result (JSON_stringify ps)"
    using getStatement_resolves[OF assms] by blast
  have rel: "list_all2 (\<lambda>item p. processItem item = Inr p) data ps"
    by (rule map_items_Inr[OF ps(1)])
  have len: "length ps = length data" using rel by (simp add: list_all2_lengthD)
  have each: "processItem (data ! i) = Inr (ps ! i)" if "i < length data" for i
    by (rule list_all2_nthD[OF rel that])
  show ?thesis
  proof (intro exI[of _ ps] conjI allI impI)
    show "result = text_result (JArr (map (\<lambda>p. JObj (members_of p)) ps))"
      by (simp add: ps(2) JSON_stringify_def)
    show "length ps = length data" by (rule len)
  qed (simp_all add: members_of_lookup processItem_fields[OF each])
qed

theorem amounts_in_major_units_witness:
  "GetStatementArgsSchema_parse args_period =
     Inr \<lparr>account_id = ''0'', from_timestamp = 1700000000, to_timestamp = 1700003600\<rparr>
   \<and> fst (getStatement args_period stub_payment)
       = Inr (text_result (JSON_stringify [processed_payment]))
   \<and> (\<exists>ps. text_result (JSON_stringify [processed_payment])
              = text_result (JArr (map (\<lambda>p. JObj (members_of p)) ps))
            \<and> length ps = 1
            \<and> map_of (members_of (ps ! 0)) ''amount'' = Some (JNum 150)
            \<and> map_of (members_of (ps ! 0)) ''operationAmount'' = Some (JNum 150)
            \<and> map_of (members_of (ps ! 0)) ''commissionRate'' = Some (JNum 0)
            \<and> map_of (members_of (ps ! 0)) ''cashbackAmount'' = Some (JNum (3 / 2))
            \<and> map_of (members_of (ps ! 0)) ''balance'' = Some (JNum 10000))"
proof -
  have f: "fetch_Statement stub_payment
             (statement_request
                \<lparr>account_id = ''0'', from_timestamp = 1700000000, to_timestamp = 1700003600\<rparr>
                stub_payment)
           = Inr (statement_response [payment])"
    by (simp add: stub_payment_def stub_def)
  have j: "json_body (statement_response [payment]) = Inr [payment]"
    by (simp add: statement_response_def)
  show ?thesis
    using amounts_in_major_units[OF parse_period f j getStatement_period_payment]
    by (simp add: parse_period getStatement_period_payment payment_def)
qed

lemma ToIntegerOrInfinity_range:
  assumes "\<bar>v\<bar> \<le> 8640000000000000"
  shows "\<bar>ToIntegerOrInfinity v\<bar> \<le> 8640000000000000"
proof (cases "0 \<le> v")
  case True
  then have "ToIntegerOrInfinity v = \<lfloor>v\<rfloor>" by (simp add: ToIntegerOrInfinity_def)
  moreover have "0 \<le> \<lfloor>v\<rfloor>" using True by simp
  moreover have "\<lfloor>v\<rfloor> \<le> 8640000000000000" using assms True by (simp add: floor_le_iff)
  ultimately show ?thesis by linarith
next
  case False
  then have "ToIntegerOrInfinity v = \<lceil>v\<rceil>" by (simp add: ToIntegerOrInfinity_def)
  moreover have "\<lceil>v\<rceil> \<le> 0" using False by (simp add: ceiling_le_zero)
  moreover have "- 8640000000000000 \<le> \<lceil>v\<rceil>" using assms False by (simp add: le_ceiling_iff)
  ultimately show ?thesis by linarith
qed

lemma ToIntegerOrInfinity_of_int: "ToIntegerOrInfinity (of_int n) = n"
  by (simp add: ToIntegerOrInfinity_def)

text \<open>A date within the range is rendered, and the string denotes the date's time value.\<close>

lemma processItem_in_range:
  assumes "\<bar>StatementItem.time item * 1000\<bar> \<le> 8640000000000000"
  shows "\<exists>p tv. new_Date (StatementItem.time item * 1000) = Some tv
           \<and> processItem item = Inr p \<and> iso_instant (time p) = Some tv"
proof -
  let ?tv = "ToIntegerOrInfinity (StatementItem.time item * 1000)"
  have d: "new_Date (StatementItem.time item * 1000) = Some ?tv"
    using assms by (simp add: new_Date_def TimeClip_def)
  obtain s where s: "toISOString (Some ?tv) = Inr s" "iso_instant s = Some ?tv"
    using toISOString_decodes[OF ToIntegerOrInfinity_range[OF assms]] by blast
  show ?thesis by (simp add: processItem_def d s)
qed

lemma processItem_beyond: "processItem beyond_last_instant = Inl (ErrorObject ''Invalid time value'')"
  by code_simp

lemma getStatement_period_beyond:
  "fst (getStatement args_period stub_beyond)
     = Inl (Error ''Failed to connect to Monobank API: Invalid time value'')"
  by (simp add: getStatement_parsed[OF parse_period] stub_beyond_def stub_def
      statement_response_def getStatement_try_def http_error_def ok_def processItem_payment
      processItem_beyond catch_clause_def)

lemma fetch_stub_payment:
  "fetch_Statement stub_payment (statement_request parsed stub_payment)
     = Inr (statement_response [payment])"
  by (simp add: stub_payment_def stub_def)

lemma json_statement_response: "json_body (statement_response items) = Inr items"
  by (simp add: statement_response_def)

lemma ok_statement_response: "ok (statement_response items)"
  by (simp add: statement_response_def ok_def)

lemma processItem_refund: "processItem refund = Inr processed_refund"
  by code_simp

lemma getStatement_period_history:
  "fst (getStatement args_period stub_history)
     = Inr (text_result (JSON_stringify [processed_payment, processed_refund, processed_payment]))"
  by (simp add: getStatement_parsed[OF parse_period] stub_history_def stub_def
      statement_response_def getStatement_try_def http_error_def ok_def processItem_payment
      processItem_refund)

lemma fetch_stub_history:
  "fetch_Statement stub_history (statement_request parsed stub_history)
     = Inr (statement_response [payment, refund, payment])"
  by (simp add: stub_history_def stub_def)

text \<open>
  Claim C2. For every upstream sequence the returned sequence has the same length and the
  same order: the document holds one object per raw item, and the object at position \<open>i\<close>
  is the processed item of the raw item at position \<open>i\<close>; nothing is reordered, filtered
  or merged. The call does resolve whenever the upstream answers with a success status
  and every timestamp lies within the range of a \<open>Date\<close>.
\<close>

theorem order_and_length_preserved:
  assumes "GetStatementArgsSchema_parse args = Inr parsed"
    and "fetch_Statement w (statement_request parsed w) = Inr response"
    and "json_body response = Inr data"
  shows "(ok response \<and> (\<forall>item \<in> set data. \<bar>StatementItem.time item * 1000\<bar> \<le> 8640000000000000)
           \<longrightarrow> (\<exists>result. fst (getStatement args w) = Inr result))
       \<and> (\<forall>result. fst (getStatement args w) = Inr result \<longrightarrow>
             (\<exists>ps. result = text_result (JArr (map (\<lambda>p. JObj (members_of p)) ps))
                \<and> length ps = length data
                \<and> (\<forall>i < length data. processItem (data ! i) = Inr (ps ! i))))"
proof (intro conjI impI allI)
  assume a: "ok response \<and> (\<forall>item \<in> set data. \<bar>StatementItem.time item * 1000\<bar> \<le> 8640000000000000)"
  then have "\<forall>item \<in> set data. \<exists>p. processItem item = Inr p"
    using processItem_in_range by blast
  then obtain ps where "map_items data = Inr ps" using map_items_total by blast
  then show "\<exists>result. fst (getStatement args w) = Inr result"
    using a assms(2,3) unfolding getStatement_parsed[OF assms(1)]
    by (simp add: getStatement_try_def http_error_def)
next
  fix result
  assume r: "fst (getStatement args w) = Inr result"
  obtain ps where ps: "map_items data = Inr ps" "result = text_result (JSON_stringify ps)"
    using getStatement_resolves[OF assms r] by blast
  have rel: "list_all2 (\<lambda>item p. processItem item = Inr p) data ps"
    by (rule map_items_Inr[OF ps(1)])
  have "length ps = length data" using rel by (simp add: list_all2_lengthD)
  moreover have "\<forall>i < length data. processItem (data ! i) = Inr (ps ! i)"
    using list_all2_nthD[OF rel] by blast
  ultimately show "\<exists>ps. result = text_result (JArr (map (\<lambda>p. JObj (members_of p)) ps))
                \<and> length ps = length data
                \<and> (\<forall>i < length data. processItem (data ! i) = Inr (ps ! i))"
    using ps(2) by (auto simp: JSON_stringify_def)
qed

theorem order_and_length_preserved_witness:
  "GetStatementArgsSchema_parse args_period =
     Inr \<lparr>account_id = ''0'', from_timestamp = 1700000000, to_timestamp = 1700003600\<rparr>
   \<and> ok (statement_response [payment, refund, payment])
   \<and> \<bar>StatementItem.time payment * 1000\<bar> \<le> 8640000000000000
   \<and> \<bar>StatementItem.time refund * 1000\<bar> \<le> 8640000000000000
   \<and> payment \<noteq> refund
   \<and> processed_payment \<noteq> processed_refund
   \<and> (\<exists>result. fst (getStatement args_period stub_history) = Inr result)
   \<and> fst (getStatement args_period stub_history)
       = Inr (text_result (JSON_stringify [processed_payment, processed_refund, processed_payment]))
   \<and> (\<exists>ps. text_result (JSON_stringify [processed_payment, processed_refund, processed_payment])
              = text_result (JArr (map (\<lambda>p. JObj (members_of p)) ps))
            \<and> length ps = 3
            \<and> processItem payment = Inr (ps ! 0)
            \<and> processItem refund = Inr (ps ! 1)
            \<and> processItem payment = Inr (ps ! 2)
            \<and> ps = [processed_payment, processed_refund, processed_payment])"
proof -
  let ?data = "[payment, refund, payment]"
  let ?result = "text_result (JSON_stringify [processed_payment, processed_refund, processed_payment])"
  note main = order_and_length_preserved[OF parse_period fetch_stub_history json_statement_response]
  have in_range: "\<bar>StatementItem.time payment * 1000\<bar> \<le> 8640000000000000"
    "\<bar>StatementItem.time refund * 1000\<bar> \<le> 8640000000000000"
    by (simp_all add: payment_def refund_def)
  have differ: "payment \<noteq> refund" "processed_payment \<noteq> processed_refund"
    by (simp_all add: payment_def refund_def processed_payment_def processed_refund_def)
  have resolves: "\<exists>result. fst (getStatement args_period stub_history) = Inr result"
    using main[THEN conjunct1] in_range by (simp add: ok_statement_response)
  obtain ps where ps:
    "?result = text_result (JArr (map (\<lambda>p. JObj (members_of p)) ps))"
    "length ps = length ?data"
    "\<forall>i < length ?data. processItem (?data ! i) = Inr (ps ! i)"
    using main[THEN conjunct2, rule_format, OF getStatement_period_history] by blast
  have 0: "processItem payment = Inr (ps ! 0)" using ps(3)[rule_format, of 0] by simp
  have 1: "processItem refund = Inr (ps ! 1)" using ps(3)[rule_format, of 1] by simp
  have 2: "processItem payment = Inr (ps ! 2)" using ps(3)[rule_format, of 2] by simp
  have len: "length ps = 3" using ps(2) by simp
  have "ps = [ps ! 0, ps ! 1, ps ! 2]"
    using len by (intro nth_equalityI) (auto simp: less_Suc_eq numeral_3_eq_3 numeral_2_eq_2)
  then have all: "ps = [processed_payment, processed_refund, processed_payment]"
    using 0 1 2 by (simp add: processItem_payment processItem_refund)
  show ?thesis
    using in_range differ resolves ps(1) len 0 1 2 all
    by (intro conjI exI[of _ ps])
      (simp_all add: parse_period ok_statement_response getStatement_period_history)
qed

text \<open>
  Claim C4. In every emitted item the keys \<open>id\<close>, \<open>invoiceId\<close>, \<open>counterEdrpou\<close> and
  \<open>counterIban\<close> are absent (every key is one of the fourteen of the processed item),
  while \<open>description\<close>, \<open>mcc\<close>, \<open>originalMcc\<close>, \<open>hold\<close>, \<open>currencyCode\<close> and the optional
  \<open>comment\<close>, \<open>receiptId\<close> and \<open>counterName\<close> carry the raw item's values unchanged; an
  optional field that the raw item lacks is absent from the emitted item.
\<close>

theorem dropped_and_copied_fields:
  assumes "GetStatementArgsSchema_parse args = Inr parsed"
    and "fetch_Statement w (statement_request parsed w) = Inr response"
    and "json_body response = Inr data"
    and "fst (getStatement args w) = Inr result"
  shows "\<exists>ps. result = text_result (JArr (map (\<lambda>p. JObj (members_of p)) ps))
           \<and> length ps = length data
           \<and> (\<forall>i < length data.
                 set (map fst (members_of (ps ! i))) \<subseteq> set processed_keys
               \<and> ''id'' \<notin> set (map fst (members_of (ps ! i)))
               \<and> ''invoiceId'' \<notin> set (map fst (members_of (ps ! i)))
               \<and> ''counterEdrpou'' \<notin> set (map fst (members_of (ps ! i)))
               \<and> ''counterIban'' \<notin> set (map fst (members_of (ps ! i)))
               \<and> map_of (members_of (ps ! i)) ''description''
                   = Some (JStr (StatementItem.description (data ! i)))
               \<and> map_of (members_of (ps ! i)) ''mcc'' = Some (JNum (StatementItem.mcc (data ! i)))
               \<and> map_of (members_of (ps ! i)) ''originalMcc''
                   = Some (JNum (StatementItem.originalMcc (data ! i)))
               \<and> map_of (members_of (ps ! i)) ''hold'' = Some (JBool (StatementItem.hold (data ! i)))
               \<and> map_of (members_of (ps ! i)) ''currencyCode''
                   = Some (JNum (StatementItem.currencyCode (data ! i)))
               \<and> map_of (members_of (ps ! i)) ''comment''
                   = map_option JStr (StatementItem.comment (data ! i))
               \<and> map_of (members_of (ps ! i)) ''receiptId''
                   = map_option JStr (StatementItem.receiptId (data ! i))
               \<and> map_of (members_of (ps ! i)) ''counterName''
                   = map_option JStr (StatementItem.counterName (data ! i)))"
proof -
  obtain ps where ps: "map_items data = Inr ps" "result = text_result (JSON_stringify ps)"
    using getStatement_resolves[OF assms] by blast
  have rel: "list_all2 (\<lambda>item p. processItem item = Inr p) data ps"
    by (rule map_items_Inr[OF ps(1)])
  have len: "length ps = length data" using rel by (simp add: list_all2_lengthD)
  have each: "processItem (data ! i) = Inr (ps ! i)" if "i < length data" for i
    by (rule list_all2_nthD[OF rel that])
  have absent: "k \<notin> set (map fst (members_of p))" if "k \<notin> set processed_keys" for k p
    using members_of_keys[of p] that by blast
  show ?thesis
  proof (intro exI[of _ ps] conjI allI impI)
    show "result = text_result (JArr (map (\<lambda>p. JObj (members_of p)) ps))"
      by (simp add: ps(2) JSON_stringify_def)
    show "length ps = length data" by (rule len)
    show "set (map fst (members_of (ps ! i))) \<subseteq> set processed_keys" for i
      by (rule members_of_keys)
    show "''id'' \<notin> set (map fst (members_of (ps ! i)))" for i
      by (rule absent) (simp add: processed_keys_def)
    show "''invoiceId'' \<notin> set (map fst (members_of (ps ! i)))" for i
      by (rule absent) (simp add: processed_keys_def)
    show "''counterEdrpou'' \<notin> set (map fst (members_of (ps ! i)))" for i
      by (rule absent) (simp add: processed_keys_def)
    show "''counterIban'' \<notin> set (map fst (members_of (ps ! i)))" for i
      by (rule absent) (simp add: processed_keys_def)
  qed (simp_all add: members_of_lookup processItem_fields[OF each])
qed

theorem dropped_and_copied_fields_witness:
  "GetStatementArgsSchema_parse args_period =
     Inr \<lparr>account_id = ''0'', from_timestamp = 1700000000, to_timestamp = 1700003600\<rparr>
   \<and> fst (getStatement args_period stub_payment)
       = Inr (text_result (JSON_stringify [processed_payment]))
   \<and> (\<exists>ps. text_result (JSON_stringify [processed_payment])
              = text_result (JArr (map (\<lambda>p. JObj (members_of p)) ps))
            \<and> length ps = 1
            \<and> set (map fst (members_of (ps ! 0))) \<subseteq> set processed_keys
            \<and> ''id'' \<notin> set (map fst (members_of (ps ! 0)))
            \<and> ''invoiceId'' \<notin> set (map fst (members_of (ps ! 0)))
            \<and> ''counterEdrpou'' \<notin> set (map fst (members_of (ps ! 0)))
            \<and> ''counterIban'' \<notin> set (map fst (members_of (ps ! 0)))
            \<and> map_of (members_of (ps ! 0)) ''description'' = Some (JStr ''Coffee'')
            \<and> map_of (members_of (ps ! 0)) ''mcc'' = Some (JNum 5814)
            \<and> map_of (members_of (ps ! 0)) ''originalMcc'' = Some (JNum 5814)
            \<and> map_of (members_of (ps ! 0)) ''hold'' = Some (JBool False)
            \<and> map_of (members_of (ps ! 0)) ''currencyCode'' = Some (JNum 980)
            \<and> map_of (members_of (ps ! 0)) ''comment'' = Some (JStr ''thanks'')
            \<and> map_of (members_of (ps ! 0)) ''receiptId'' = None
            \<and> map_of (members_of (ps ! 0)) ''counterName'' = None)"
  using dropped_and_copied_fields[OF parse_period fetch_stub_payment json_statement_response
      getStatement_period_payment]
  by (simp add: parse_period getStatement_period_payment payment_def)

subsection \<open>Timestamps\<close>

lemma whole_seconds_ms:
  fixes n :: int
  shows "\<bar>n\<bar> \<le> 8640000000000 \<longleftrightarrow> \<bar>(of_int n :: rat) * 1000\<bar> \<le> 8640000000000000"
proof -
  have "\<bar>(of_int n :: rat) * 1000\<bar> = of_int (\<bar>n\<bar> * 1000)" by (simp add: abs_mult)
  moreover have "(of_int (\<bar>n\<bar> * 1000) :: rat) \<le> of_int 8640000000000000
      \<longleftrightarrow> \<bar>n\<bar> * 1000 \<le> 8640000000000000"
    by (rule of_int_le_iff)
  moreover have "\<bar>n\<bar> * 1000 \<le> 8640000000000000 \<longleftrightarrow> \<bar>n\<bar> \<le> 8640000000000" by linarith
  ultimately show ?thesis by simp
qed

lemma processItem_throws:
  "processItem item = Inl e \<Longrightarrow> e = ErrorObject ''Invalid time value''"
  by (auto simp: processItem_def toISOString_def split: sum.splits option.splits)

lemma processItem_beyond_range:
  "8640000000000000 < \<bar>StatementItem.time item * 1000\<bar> \<Longrightarrow>
   processItem item = Inl (ErrorObject ''Invalid time value'')"
  by (simp add: processItem_def new_Date_def TimeClip_def toISOString_def)

lemma map_items_throws:
  "item \<in> set data \<Longrightarrow> processItem item = Inl e \<Longrightarrow>
   map_items data = Inl (ErrorObject ''Invalid time value'')"
proof (induction data)
  case Nil
  then show ?case by simp
next
  case (Cons x xs)
  show ?case
  proof (cases "processItem x")
    case (Inl e')
    then show ?thesis using processItem_throws[OF Inl] by simp
  next
    case (Inr p)
    then have "item \<in> set xs" using Cons.prems by auto
    then show ?thesis using Cons.IH Cons.prems(2) Inr by simp
  qed
qed

lemma getStatement_unrenderable:
  assumes "GetStatementArgsSchema_parse args = Inr parsed"
    and "fetch_Statement w (statement_request parsed w) = Inr response"
    and "ok response"
    and "json_body response = Inr data"
    and "item \<in> set data"
    and "8640000000000000 < \<bar>StatementItem.time item * 1000\<bar>"
  shows "fst (getStatement args w)
           = Inl (Error ''Failed to connect to Monobank API: Invalid time value'')"
  using assms(2-4) map_items_throws[OF assms(5) processItem_beyond_range[OF assms(6)]]
  by (simp add: getStatement_parsed[OF assms(1)] getStatement_try_def http_error_def
      catch_clause_def)

lemma fetch_stub_beyond:
  "fetch_Statement stub_beyond (statement_request parsed stub_beyond)
     = Inr (statement_response [payment, beyond_last_instant])"
  by (simp add: stub_beyond_def stub_def)

text \<open>
  Claim C3 says that every raw item gets a normalized \<open>time\<close>. An item dated after
  +275760-09-13T00:00:00Z has none: \<open>new Date\<close> yields an invalid date, \<open>toISOString\<close>
  throws, and the whole call fails.
\<close>

theorem time_out_of_range_counterexample:
  "processItem beyond_last_instant = Inl (ErrorObject ''Invalid time value'')
   \<and> fst (getStatement args_period stub_beyond)
       = Inl (Error ''Failed to connect to Monobank API: Invalid time value'')"
  by (simp add: processItem_beyond getStatement_period_beyond)

text \<open>
  Claim C3, amended. For every raw item whose \<open>time\<close> is a whole number \<open>n\<close> of Unix
  seconds: when \<open>n\<close> lies within 8 640 000 000 000 of the epoch, the normalized \<open>time\<close> is
  a valid ISO-8601 UTC string (with a signed six-digit year outside 0 to 9999) denoting
  the same instant, \<open>n * 1000\<close> milliseconds, and 1700000000 is rendered as
  \<open>2023-11-14T22:13:20.000Z\<close>; when \<open>n\<close> lies beyond, the item has no normalized form:
  processing it throws \<open>Invalid time value\<close>, and every call whose upstream answers with a
  sequence holding such an item fails with that message behind the usual prefix.
\<close>

theorem time_rendered_as_iso_utc:
  assumes "StatementItem.time item = of_int n"
  shows "(\<bar>n\<bar> \<le> 8640000000000 \<longrightarrow>
            (\<exists>p. processItem item = Inr p
               \<and> iso_instant (time p) = Some (n * 1000)
               \<and> (n = 1700000000 \<longrightarrow> time p = ''2023-11-14T22:13:20.000Z'')))
       \<and> (8640000000000 < \<bar>n\<bar> \<longrightarrow>
            processItem item = Inl (ErrorObject ''Invalid time value'')
            \<and> (GetStatementArgsSchema_parse args = Inr parsed
                 \<and> fetch_Statement w (statement_request parsed w) = Inr response
                 \<and> ok response \<and> json_body response = Inr data \<and> item \<in> set data
               \<longrightarrow> fst (getStatement args w)
                     = Inl (Error ''Failed to connect to Monobank API: Invalid time value'')))"
proof (intro conjI impI)
  assume r: "\<bar>n\<bar> \<le> 8640000000000"
  then have ms: "\<bar>StatementItem.time item * 1000\<bar> \<le> 8640000000000000"
    using whole_seconds_ms[of n] assms by simp
  obtain p tv where p: "processItem item = Inr p" "iso_instant (time p) = Some tv"
    and tv: "new_Date (StatementItem.time item * 1000) = Some tv"
    using processItem_in_range[OF ms] by blast
  have "StatementItem.time item * 1000 = of_int (n * 1000)" using assms by simp
  then have "new_Date (StatementItem.time item * 1000) = Some (n * 1000)"
    using ms by (simp only: new_Date_def TimeClip_def ToIntegerOrInfinity_of_int) simp
  then have i: "iso_instant (time p) = Some (n * 1000)"
    using p(2) tv by simp
  have "time p = ''2023-11-14T22:13:20.000Z''" if "n = 1700000000"
  proof -
    have "toISOString (new_Date (1700000000 * 1000)) = Inr ''2023-11-14T22:13:20.000Z''"
      by code_simp
    then show ?thesis using processItem_fields(14)[OF p(1)] assms that by simp
  qed
  then show "\<exists>p. processItem item = Inr p
               \<and> iso_instant (time p) = Some (n * 1000)
               \<and> (n = 1700000000 \<longrightarrow> time p = ''2023-11-14T22:13:20.000Z'')"
    using p(1) i by blast
next
  assume "8640000000000 < \<bar>n\<bar>"
  then have ms: "8640000000000000 < \<bar>StatementItem.time item * 1000\<bar>"
    using whole_seconds_ms[of n] assms by simp
  show "processItem item = Inl (ErrorObject ''Invalid time value'')"
    by (rule processItem_beyond_range[OF ms])
next
  assume "8640000000000 < \<bar>n\<bar>"
  then have ms: "8640000000000000 < \<bar>StatementItem.time item * 1000\<bar>"
    using whole_seconds_ms[of n] assms by simp
  assume "GetStatementArgsSchema_parse args = Inr parsed
                 \<and> fetch_Statement w (statement_request parsed w) = Inr response
                 \<and> ok response \<and> json_body response = Inr data \<and> item \<in> set data"
  then show "fst (getStatement args w)
                     = Inl (Error ''Failed to connect to Monobank API: Invalid time value'')"
    using getStatement_unrenderable[OF _ _ _ _ _ ms] by blast
qed

theorem time_rendered_as_iso_utc_witness:
  "StatementItem.time payment = 1700000000
   \<and> processItem payment = Inr processed_payment
   \<and> time processed_payment = ''2023-11-14T22:13:20.000Z''
   \<and> iso_instant ''2023-11-14T22:13:20.000Z'' = Some 1700000000000
   \<and> StatementItem.time beyond_last_instant = 8640000000001
   \<and> processItem beyond_last_instant = Inl (ErrorObject ''Invalid time value'')
   \<and> ok (statement_response [payment, beyond_last_instant])
   \<and> fst (getStatement args_period stub_beyond)
       = Inl (Error ''Failed to connect to Monobank API: Invalid time value'')"
proof -
  have t: "StatementItem.time payment = of_int 1700000000" by (simp add: payment_def)
  have s: "time processed_payment = ''2023-11-14T22:13:20.000Z''"
    by (simp add: processed_payment_def)
  obtain p where p: "processItem payment = Inr p"
    "iso_instant (time p) = Some (1700000000 * 1000)"
    using time_rendered_as_iso_utc[OF t, THEN conjunct1] by auto
  have "p = processed_payment" using p(1) by (simp add: processItem_payment)
  then have a: "iso_instant ''2023-11-14T22:13:20.000Z'' = Some 1700000000000"
    using p(2) s by simp
  have b: "StatementItem.time beyond_last_instant = of_int 8640000000001"
    by (simp add: beyond_last_instant_def)
  note far = time_rendered_as_iso_utc[OF b, of args_period
      "\<lparr>account_id = ''0'', from_timestamp = 1700000000, to_timestamp = 1700003600\<rparr>"
      stub_beyond "statement_response [payment, beyond_last_instant]"
      "[payment, beyond_last_instant]", THEN conjunct2]
  have c: "processItem beyond_last_instant = Inl (ErrorObject ''Invalid time value'')"
    using far by simp
  have d: "fst (getStatement args_period stub_beyond)
       = Inl (Error ''Failed to connect to Monobank API: Invalid time value'')"
    using far by (simp add: parse_period fetch_stub_beyond ok_statement_response
        json_statement_response)
  show ?thesis using t s a b c d by (simp add: processItem_payment ok_statement_response)
qed

subsection \<open>Validation\<close>

lemma z_string_cases:
  "(\<exists>s. v = JStr s \<and> is_string v \<and> z_string k v = Inr s)
   \<or> (\<not> is_string v \<and> z_string k v = Inl [invalid_type ''string'' [k]])"
  by (cases v) (simp_all add: z_string_def is_string_def)

lemma z_number_cases:
  "(\<exists>n. v = JNum n \<and> is_number v \<and> z_number k v = Inr n)
   \<or> (\<not> is_number v \<and> z_number k v = Inl [invalid_type ''number'' [k]])"
  by (cases v) (simp_all add: z_number_def is_number_def)

lemma parse_object_fails:
  assumes "\<not> schema_conforms (JObj members)"
  shows "\<exists>issues. GetStatementArgsSchema_parse (JObj members) = Inl issues \<and> issues \<noteq> []
           \<and> map path issues = offending_paths (JObj members)"
proof -
  note a = z_string_cases[of "property members ''account_id''" "''account_id''"]
  note f = z_number_cases[of "property members ''from_timestamp''" "''from_timestamp''"]
  note t = z_number_cases[of "property members ''to_timestamp''" "''to_timestamp''"]
  from a f t assms show ?thesis
    by (elim disjE exE conjE)
      (simp_all add: GetStatementArgsSchema_parse_def schema_conforms_def offending_paths_def
        issues_of_def Let_def)
qed

lemma parse_fails:
  assumes "\<not> schema_conforms args"
  shows "\<exists>issues. GetStatementArgsSchema_parse args = Inl issues \<and> issues \<noteq> []
           \<and> map path issues = offending_paths args"
proof (cases args)
  case (JObj members)
  then show ?thesis using parse_object_fails assms by simp
qed (simp_all add: GetStatementArgsSchema_parse_def offending_paths_def)

text \<open>
  Claim C5. For every \<open>get_statement\<close> call whose arguments violate the declared schema
  (a field missing or of the wrong type, or no object at all), the call fails with the
  validation error, whose issues name the offending fields, each by its path and in the
  order of the schema (the empty path when the arguments are no object); and no request
  is sent: the world, and with it the log of requests, is left as it was.
\<close>

theorem invalid_arguments_rejected_before_fetch:
  assumes "\<not> schema_conforms args"
  shows "\<exists>issues. fst (getStatement args w) = Inl (ZodError issues)
           \<and> issues \<noteq> []
           \<and> map path issues = offending_paths args
           \<and> snd (getStatement args w) = w
           \<and> sent (snd (getStatement args w)) = sent w"
proof -
  obtain issues where "GetStatementArgsSchema_parse args = Inl issues" "issues \<noteq> []"
    "map path issues = offending_paths args"
    using parse_fails[OF assms] by blast
  then show ?thesis by (simp add: getStatement_def)
qed

theorem invalid_arguments_rejected_before_fetch_witness:
  "\<not> schema_conforms args_without_from
   \<and> fst (getStatement args_without_from stub_payment)
       = Inl (ZodError [invalid_type ''number'' [''from_timestamp'']])
   \<and> offending_paths args_without_from = [[''from_timestamp'']]
   \<and> sent (snd (getStatement args_without_from stub_payment)) = []"
proof -
  have c: "\<not> schema_conforms args_without_from"
    by (simp add: schema_conforms_def args_without_from_def property_def is_number_def)
  have o: "offending_paths args_without_from = [[''from_timestamp'']]"
    by (simp add: offending_paths_def args_without_from_def property_def is_number_def
        is_string_def)
  have p: "GetStatementArgsSchema_parse args_without_from
             = Inl [invalid_type ''number'' [''from_timestamp'']]"
    by (simp add: GetStatementArgsSchema_parse_def args_without_from_def property_def
        z_string_def z_number_def issues_of_def)
  have s: "sent stub_payment = []" by (simp add: stub_payment_def stub_def)
  show ?thesis
    using invalid_arguments_rejected_before_fetch[OF c, of stub_payment] c o s
    by (simp add: getStatement_def p)
qed

text \<open>
  Claim C10. For every arguments object whose \<open>account_id\<close> is a string and whose
  \<open>from_timestamp\<close> and \<open>to_timestamp\<close> are numbers, validation succeeds whatever other
  keys the object holds, and those keys have no effect: the call behaves, in its result
  and in the request it sends, as the call with the three recognised keys alone.
\<close>

theorem unrecognized_keys_ignored:
  assumes "property members ''account_id'' = JStr a"
    and "property members ''from_timestamp'' = JNum f"
    and "property members ''to_timestamp'' = JNum t"
  shows "GetStatementArgsSchema_parse (JObj members)
           = Inr \<lparr>account_id = a, from_timestamp = f, to_timestamp = t\<rparr>
       \<and> getStatement (JObj members) w
           = getStatement (JObj [(''account_id'', JStr a), (''from_timestamp'', JNum f),
                                 (''to_timestamp'', JNum t)]) w"
proof -
  have 1: "GetStatementArgsSchema_parse (JObj members)
           = Inr \<lparr>account_id = a, from_timestamp = f, to_timestamp = t\<rparr>"
    using assms by (simp add: GetStatementArgsSchema_parse_def z_string_def z_number_def)
  have 2: "GetStatementArgsSchema_parse (JObj [(''account_id'', JStr a), (''from_timestamp'', JNum f),
                                 (''to_timestamp'', JNum t)])
           = Inr \<lparr>account_id = a, from_timestamp = f, to_timestamp = t\<rparr>"
    by (simp add: GetStatementArgsSchema_parse_def z_string_def z_number_def property_def)
  show ?thesis using 1 by (simp add: getStatement_parsed[OF 1] getStatement_parsed[OF 2])
qed

theorem unrecognized_keys_ignored_witness:
  "property [(''limit'', JNum 10), (''account_id'', JStr ''0''),
             (''from_timestamp'', JNum 1700000000), (''verbose'', JBool True),
             (''to_timestamp'', JNum 1700003600)] ''account_id'' = JStr ''0''
   \<and> GetStatementArgsSchema_parse args_with_extra
       = Inr \<lparr>account_id = ''0'', from_timestamp = 1700000000, to_timestamp = 1700003600\<rparr>
   \<and> getStatement args_with_extra stub_payment = getStatement args_period stub_payment
   \<and> fst (getStatement args_with_extra stub_payment)
       = Inr (text_result (JSON_stringify [processed_payment]))"
proof -
  let ?members = "[(''limit'', JNum 10), (''account_id'', JStr ''0''),
             (''from_timestamp'', JNum 1700000000), (''verbose'', JBool True),
             (''to_timestamp'', JNum 1700003600)]"
  have a: "property ?members ''account_id'' = JStr ''0''" by (simp add: property_def)
  have f: "property ?members ''from_timestamp'' = JNum 1700000000" by (simp add: property_def)
  have t: "property ?members ''to_timestamp'' = JNum 1700003600" by (simp add: property_def)
  show ?thesis
    using unrecognized_keys_ignored[OF a f t, of stub_payment] a
    by (simp add: args_with_extra_def args_period_def[symmetric] getStatement_period_payment)
qed

subsection \<open>The end of the period\<close>

text \<open>
  Claim C6. For every valid \<open>get_statement\<close> call exactly one request is sent; when
  \<open>to_timestamp\<close> is zero (the one falsy number) its end timestamp is the clock at call
  time in whole Unix seconds, and otherwise it is the given \<open>to_timestamp\<close>, unchanged.
\<close>

theorem end_of_period_defaults_to_now:
  assumes "GetStatementArgsSchema_parse args = Inr parsed"
  shows "\<exists>end_time.
           sent (snd (getStatement args w))
             = sent w @ [\<lparr>url = statement_url (account_id parsed) (from_timestamp parsed) end_time,
                          X_Token = token_or_placeholder w\<rparr>]
         \<and> (to_timestamp parsed = 0 \<longrightarrow> end_time = of_int (Date_now w div 1000))
         \<and> (to_timestamp parsed \<noteq> 0 \<longrightarrow> end_time = to_timestamp parsed)"
  by (simp add: getStatement_parsed[OF assms] statement_request_def finalToTimestamp_def
      floor_seconds)

lemma parse_open_end:
  "GetStatementArgsSchema_parse args_open_end =
     Inr \<lparr>account_id = ''0'', from_timestamp = 1700000000, to_timestamp = 0\<rparr>"
  by (simp add: GetStatementArgsSchema_parse_def args_open_end_def property_def z_string_def
      z_number_def)

theorem end_of_period_defaults_to_now_witness:
  "GetStatementArgsSchema_parse args_open_end =
     Inr \<lparr>account_id = ''0'', from_timestamp = 1700000000, to_timestamp = 0\<rparr>
   \<and> Date_now stub_payment = 1700003600123
   \<and> sent (snd (getStatement args_open_end stub_payment))
       = [\<lparr>url = statement_url ''0'' 1700000000 1700003600,
           X_Token = ''test-token''\<rparr>]"
proof -
  have n: "Date_now stub_payment = 1700003600123" "sent stub_payment = []"
    "token_or_placeholder stub_payment = ''test-token''"
    by (simp_all add: stub_payment_def stub_def token_or_placeholder_def)
  show ?thesis
    using end_of_period_defaults_to_now[OF parse_open_end, of stub_payment]
    by (auto simp: parse_open_end n)
qed

subsection \<open>Failures\<close>

lemma show_nat_401: "show_nat 401 = ''401''"
  by (simp add: show_nat.simps digit_char_def)

lemma getClientInfo_unfold:
  "getClientInfo w =
     (case getClientInfo_try
             (fetch_ClientInfo w \<lparr>url = client_info_url, X_Token = token_or_placeholder w\<rparr>) of
        Inl error \<Rightarrow> Inl (catch_clause error)
      | Inr result \<Rightarrow> Inr result,
      w\<lparr>sent := sent w @ [\<lparr>url = client_info_url, X_Token = token_or_placeholder w\<rparr>]\<rparr>)"
  by (simp add: getClientInfo_def Let_def)

lemma http_error_status:
  assumes "\<not> ok response" "text_body response = Inr body"
  shows "http_error response
           = Some (ErrorObject (''HTTP error! status: '' @ show_nat (status response)
                                @ '', body: '' @ body))"
  using assms by (simp add: http_error_def)

text \<open>
  Claim C7. Whenever the upstream answers \<open>get_client_info\<close> or \<open>get_statement\<close> with a
  status outside 200 to 299 (and the body can be read as text), the call fails, returning
  no result, with one error whose message contains the decimal status code and the body
  text. A 401 with body \<open>invalid token\<close> is the witness.
\<close>

theorem upstream_status_reported:
  "(fetch_ClientInfo w \<lparr>url = client_info_url, X_Token = token_or_placeholder w\<rparr> = Inr response
      \<and> \<not> ok response \<and> text_body response = Inr body
    \<longrightarrow> (\<exists>message. fst (getClientInfo w) = Inl (Error message)
           \<and> message = ''Failed to connect to Monobank API: HTTP error! status: ''
                         @ show_nat (status response) @ '', body: '' @ body
           \<and> sublist (show_nat (status response)) message \<and> sublist body message))
   \<and> (GetStatementArgsSchema_parse args = Inr parsed
      \<and> fetch_Statement w (statement_request parsed w) = Inr response'
      \<and> \<not> ok response' \<and> text_body response' = Inr body'
    \<longrightarrow> (\<exists>message. fst (getStatement args w) = Inl (Error message)
           \<and> message = ''Failed to connect to Monobank API: HTTP error! status: ''
                         @ show_nat (status response') @ '', body: '' @ body'
           \<and> sublist (show_nat (status response')) message \<and> sublist body' message))"
proof (intro conjI impI)
  assume a: "fetch_ClientInfo w \<lparr>url = client_info_url, X_Token = token_or_placeholder w\<rparr> = Inr response
      \<and> \<not> ok response \<and> text_body response = Inr body"
  let ?m = "''Failed to connect to Monobank API: HTTP error! status: ''
                         @ show_nat (status response) @ '', body: '' @ body"
  have "fst (getClientInfo w) = Inl (Error ?m)"
    using a by (simp add: getClientInfo_unfold getClientInfo_try_def http_error_status
        catch_clause_def)
  moreover have "sublist (show_nat (status response)) ?m"
    by (rule sublist_appendI)
  moreover have "sublist body ?m"
    using sublist_appendI[of body "''Failed to connect to Monobank API: HTTP error! status: ''
                         @ show_nat (status response) @ '', body: ''" "[]"] by simp
  ultimately show "\<exists>message. fst (getClientInfo w) = Inl (Error message)
           \<and> message = ?m
           \<and> sublist (show_nat (status response)) message \<and> sublist body message"
    by blast
next
  assume a: "GetStatementArgsSchema_parse args = Inr parsed
      \<and> fetch_Statement w (statement_request parsed w) = Inr response'
      \<and> \<not> ok response' \<and> text_body response' = Inr body'"
  let ?m = "''Failed to connect to Monobank API: HTTP error! status: ''
                         @ show_nat (status response') @ '', body: '' @ body'"
  have p: "GetStatementArgsSchema_parse args = Inr parsed" using a by simp
  have "fst (getStatement args w) = Inl (Error ?m)"
    using a by (simp add: getStatement_parsed[OF p] getStatement_try_def http_error_status
        catch_clause_def)
  moreover have "sublist (show_nat (status response')) ?m"
    by (rule sublist_appendI)
  moreover have "sublist body' ?m"
    using sublist_appendI[of body' "''Failed to connect to Monobank API: HTTP error! status: ''
                         @ show_nat (status response') @ '', body: ''" "[]"] by simp
  ultimately show "\<exists>message. fst (getStatement args w) = Inl (Error message)
           \<and> message = ?m
           \<and> sublist (show_nat (status response')) message \<and> sublist body' message"
    by blast
qed

lemma stub_unauthorized_facts:
  "fetch_ClientInfo stub_unauthorized req = Inr (error_response 401 ''invalid token'')"
  "fetch_Statement stub_unauthorized req = Inr (error_response 401 ''invalid token'')"
  "\<not> ok (error_response 401 ''invalid token'')"
  "text_body (error_response 401 ''invalid token'') = Inr ''invalid token''"
  "status (error_response 401 ''invalid token'') = 401"
  by (simp_all add: stub_unauthorized_def stub_def error_response_def ok_def)

theorem upstream_status_reported_witness:
  "\<not> ok (error_response 401 ''invalid token'' :: ClientInfo response)
   \<and> fst (getClientInfo stub_unauthorized)
       = Inl (Error ''Failed to connect to Monobank API: HTTP error! status: 401, body: invalid token'')
   \<and> fst (getStatement args_period stub_unauthorized)
       = Inl (Error ''Failed to connect to Monobank API: HTTP error! status: 401, body: invalid token'')
   \<and> sublist ''401''
        ''Failed to connect to Monobank API: HTTP error! status: 401, body: invalid token''
   \<and> sublist ''invalid token''
        ''Failed to connect to Monobank API: HTTP error! status: 401, body: invalid token''"
  using upstream_status_reported[of stub_unauthorized "error_response 401 ''invalid token''"
      "''invalid token''" args_period
      "\<lparr>account_id = ''0'', from_timestamp = 1700000000, to_timestamp = 1700003600\<rparr>"
      "error_response 401 ''invalid token''" "''invalid token''"]
  by (simp add: stub_unauthorized_facts parse_period show_nat_401)

subsection \<open>Routing\<close>

text \<open>
  Claim C9. For every request whose name is neither \<open>get_client_info\<close> nor
  \<open>get_statement\<close> the handler fails with an error naming the requested operation and
  sends no request; and the comparison of the name is all the routing there is: under
  either known name the handler is the tool itself.
\<close>

theorem unknown_tool_rejected:
  "(name request \<noteq> ''get_client_info'' \<and> name request \<noteq> ''get_statement''
      \<longrightarrow> fst (CallToolRequestHandler request w) = Inl (Error (''Unknown tool: '' @ name request))
        \<and> snd (CallToolRequestHandler request w) = w
        \<and> sent (snd (CallToolRequestHandler request w)) = sent w)
   \<and> (name request = ''get_client_info'' \<longrightarrow> CallToolRequestHandler request w = getClientInfo w)
   \<and> (name request = ''get_statement''
      \<longrightarrow> CallToolRequestHandler request w = getStatement (arguments request) w)"
  by (simp add: CallToolRequestHandler_def)

theorem unknown_tool_rejected_witness:
  "name \<lparr>name = ''get_balance'', arguments = JUndefined\<rparr> \<noteq> ''get_client_info''
   \<and> name \<lparr>name = ''get_balance'', arguments = JUndefined\<rparr> \<noteq> ''get_statement''
   \<and> fst (CallToolRequestHandler \<lparr>name = ''get_balance'', arguments = JUndefined\<rparr> stub_payment)
       = Inl (Error ''Unknown tool: get_balance'')
   \<and> sent (snd (CallToolRequestHandler \<lparr>name = ''get_balance'', arguments = JUndefined\<rparr>
                  stub_payment)) = []"
proof -
  have s: "sent stub_payment = []" by (simp add: stub_payment_def stub_def)
  show ?thesis
    using unknown_tool_rejected[of "\<lparr>name = ''get_balance'', arguments = JUndefined\<rparr>" stub_payment]
    by (simp add: s)
qed

subsection \<open>How failures surface\<close>

text \<open>
  Claim C8 says that every failure, whatever its cause, surfaces wrapped in a message
  beginning \<open>Failed to connect to Monobank API: \<close>. Two causes are not wrapped: an
  unknown operation is reported by the handler itself, and the validation of
  \<open>get_statement\<close> stands before the \<open>try\<close> block.
\<close>

theorem unwrapped_failures_counterexample:
  "fst (CallToolRequestHandler \<lparr>name = ''get_balance'', arguments = JUndefined\<rparr> stub_payment)
     = Inl (Error ''Unknown tool: get_balance'')
   \<and> \<not> prefix ''Failed to connect to Monobank API: '' ''Unknown tool: get_balance''
   \<and> fst (CallToolRequestHandler \<lparr>name = ''get_statement'', arguments = args_without_from\<rparr>
             stub_payment)
     = Inl (ZodError [invalid_type ''number'' [''from_timestamp'']])"
proof -
  have p: "GetStatementArgsSchema_parse args_without_from
             = Inl [invalid_type ''number'' [''from_timestamp'']]"
    by (simp add: GetStatementArgsSchema_parse_def args_without_from_def property_def
        z_string_def z_number_def issues_of_def)
  show ?thesis by (simp add: CallToolRequestHandler_def getStatement_def p)
qed

lemma catch_clause_prefix:
  "\<exists>message. catch_clause error = Error (''Failed to connect to Monobank API: '' @ message)"
  by (cases error) (simp_all add: catch_clause_def)

lemma getClientInfo_outcome:
  "(\<forall>failure. fst (getClientInfo w) = Inl failure \<longrightarrow>
      (\<exists>message. failure = Error (''Failed to connect to Monobank API: '' @ message)))
   \<and> (\<forall>result. fst (getClientInfo w) = Inr result \<longrightarrow>
      (\<exists>response data.
         fetch_ClientInfo w \<lparr>url = client_info_url, X_Token = token_or_placeholder w\<rparr> = Inr response
         \<and> ok response \<and> json_body response = Inr data \<and> result = text_result data))"
  using catch_clause_prefix
  by (auto simp: getClientInfo_unfold getClientInfo_try_def http_error_def
      split: sum.splits option.splits if_splits)

lemma getStatement_outcome:
  "(\<forall>failure. fst (getStatement args w) = Inl failure \<longrightarrow>
      (\<exists>message. failure = Error (''Failed to connect to Monobank API: '' @ message))
      \<or> (\<exists>issues. failure = ZodError issues \<and> GetStatementArgsSchema_parse args = Inl issues
            \<and> snd (getStatement args w) = w))
   \<and> (\<forall>result. fst (getStatement args w) = Inr result \<longrightarrow>
      (\<exists>parsed response data ps.
         GetStatementArgsSchema_parse args = Inr parsed
         \<and> fetch_Statement w (statement_request parsed w) = Inr response
         \<and> ok response \<and> json_body response = Inr data \<and> map_items data = Inr ps
         \<and> result = text_result (JSON_stringify ps)))"
proof (cases "GetStatementArgsSchema_parse args")
  case (Inl issues)
  then show ?thesis by (simp add: getStatement_def)
next
  case (Inr parsed)
  show ?thesis
    using catch_clause_prefix
    by (auto simp: getStatement_parsed[OF Inr] Inr getStatement_try_def http_error_def
        split: sum.splits option.splits if_splits)
qed

text \<open>
  Claim C8, amended. Every failure raised inside the \<open>try\<close> block of a tool (the
  transport, a non-success status, a body that cannot be read or parsed, a timestamp that
  cannot be rendered) surfaces as one error whose message begins
  \<open>Failed to connect to Monobank API: \<close>; a validation failure of \<open>get_statement\<close>
  surfaces as the validation error itself and an unknown operation as
  \<open>Unknown tool: \<close> followed by the name, both before any request is sent. No failure is
  swallowed and no partial result is returned: a call resolves only if the upstream
  answered with a success status, the body parsed, and every item was processed.
\<close>

theorem failures_surface:
  "(\<forall>failure. fst (CallToolRequestHandler request w) = Inl failure \<longrightarrow>
      (name request \<in> {''get_client_info'', ''get_statement''}
         \<and> (\<exists>message. failure = Error (''Failed to connect to Monobank API: '' @ message)))
      \<or> (name request = ''get_statement''
         \<and> (\<exists>issues. failure = ZodError issues
               \<and> GetStatementArgsSchema_parse (arguments request) = Inl issues)
         \<and> snd (CallToolRequestHandler request w) = w)
      \<or> (name request \<notin> {''get_client_info'', ''get_statement''}
         \<and> failure = Error (''Unknown tool: '' @ name request)
         \<and> snd (CallToolRequestHandler request w) = w))
   \<and> (\<forall>result. fst (CallToolRequestHandler request w) = Inr result \<longrightarrow>
      (name request = ''get_client_info''
         \<and> (\<exists>response data.
               fetch_ClientInfo w \<lparr>url = client_info_url, X_Token = token_or_placeholder w\<rparr>
                 = Inr response
               \<and> ok response \<and> json_body response = Inr data \<and> result = text_result data))
      \<or> (name request = ''get_statement''
         \<and> (\<exists>parsed response data ps.
               GetStatementArgsSchema_parse (arguments request) = Inr parsed
               \<and> fetch_Statement w (statement_request parsed w) = Inr response
               \<and> ok response \<and> json_body response = Inr data \<and> map_items data = Inr ps
               \<and> result = text_result (JSON_stringify ps))))"
proof -
  consider "name request = ''get_client_info''" | "name request = ''get_statement''"
    | "name request \<noteq> ''get_client_info'' \<and> name request \<noteq> ''get_statement''" by blast
  then show ?thesis
  proof cases
    case 1
    then have h: "CallToolRequestHandler request w = getClientInfo w"
      by (simp add: CallToolRequestHandler_def)
    show ?thesis using getClientInfo_outcome[of w] 1 unfolding h by simp
  next
    case 2
    then have h: "CallToolRequestHandler request w = getStatement (arguments request) w"
      by (simp add: CallToolRequestHandler_def)
    have m: "name request \<in> {''get_client_info'', ''get_statement''}" using 2 by simp
    show ?thesis using getStatement_outcome[of "arguments request" w] 2 m unfolding h by blast
  next
    case 3
    then show ?thesis by (simp add: CallToolRequestHandler_def)
  qed
qed

theorem failures_surface_witness:
  "fst (CallToolRequestHandler \<lparr>name = ''get_client_info'', arguments = JUndefined\<rparr>
          stub_unauthorized)
     = Inl (Error ''Failed to connect to Monobank API: HTTP error! status: 401, body: invalid token'')
   \<and> (\<exists>message. Error ''Failed to connect to Monobank API: HTTP error! status: 401, body: invalid token''
          = Error (''Failed to connect to Monobank API: '' @ message))"
proof -
  let ?request = "\<lparr>name = ''get_client_info'', arguments = JUndefined\<rparr>"
  have f: "fst (CallToolRequestHandler ?request stub_unauthorized)
     = Inl (Error ''Failed to connect to Monobank API: HTTP error! status: 401, body: invalid token'')"
    by (simp add: CallToolRequestHandler_def getClientInfo_unfold getClientInfo_try_def
        http_error_status stub_unauthorized_facts catch_clause_def show_nat_401)
  show ?thesis
    using failures_surface[of ?request stub_unauthorized, THEN conjunct1, rule_format, OF f] f
    by simp
qed

end
